theory Spec2Isabelle
  imports Complex_Main
begin

section \<open>Python values shared by the embedding\<close>

text \<open>
  Exceptions are values.  Every function of the source that can raise returns
  \<open>exn + 'a\<close>, with \<open>Inl\<close> for the exception.  \<open>ProviderError\<close> stands for whatever
  a provider SDK raises on a failed network call; \<open>RetryError e\<close> is tenacity's
  \<open>RetryError\<close>, which carries the exception \<open>e\<close> of the last attempt.
  \<open>UnicodeEncodeError\<close> is what \<open>str.encode\<close> raises on a text that UTF-8 cannot encode.
\<close>

datatype exn =
    ValueError string
  | ImportError string
  | NotImplementedError string
  | KeyError string
  | TypeError
  | AttributeError
  | IndexError
  | AssertionError
  | JSONDecodeError
  | ValidationError
  | UnicodeEncodeError
  | ProviderError string
  | RetryError exn

text \<open>Truthiness of an optional string, and Python's \<open>a or b\<close> on two of them.\<close>

definition truthy :: "string option \<Rightarrow> bool" where
  "truthy a = (case a of None \<Rightarrow> False | Some s \<Rightarrow> s \<noteq> [])"

definition py_or :: "string option \<Rightarrow> string option \<Rightarrow> string option" where
  "py_or a b = (if truthy a then a else b)"

text \<open>
  A dict literal as an association list; \<open>d[k]\<close> raises \<open>KeyError\<close> on a missing key,
  \<open>k in d\<close> is membership among the keys.
\<close>

definition dict_getitem :: "(string \<times> 'v) list \<Rightarrow> string \<Rightarrow> exn + 'v" where
  "dict_getitem d k = (case map_of d k of None \<Rightarrow> Inl (KeyError k) | Some v \<Rightarrow> Inr v)"

definition dict_contains :: "(string \<times> 'v) list \<Rightarrow> string \<Rightarrow> bool" where
  "dict_contains d k = (map_of d k \<noteq> None)"

section \<open>llms.py: the model registry\<close>

datatype ModelProvider = OPENAI | ANTHROPIC

record ModelConfig =
  provider :: ModelProvider
  name :: string
  max_tokens :: int
  embedding_dimensions :: int

definition mk_config :: "ModelProvider \<Rightarrow> string \<Rightarrow> int \<Rightarrow> int \<Rightarrow> ModelConfig" where
  "mk_config p n t d = \<lparr>provider = p, name = n, max_tokens = t, embedding_dimensions = d\<rparr>"

definition MODEL_CONFIGS :: "(string \<times> ModelConfig) list" where
  "MODEL_CONFIGS =
   [(''gpt-3.5-turbo'', mk_config OPENAI ''gpt-3.5-turbo'' 4096 1536),
    (''gpt-3.5-turbo-16k'', mk_config OPENAI ''gpt-3.5-turbo-16k'' 16384 1536),
    (''gpt-4'', mk_config OPENAI ''gpt-4'' 8192 1536),
    (''gpt-4-32k'', mk_config OPENAI ''gpt-4-32k'' 32768 1536),
    (''gpt-4o'', mk_config OPENAI ''gpt-4o'' 128000 1536),
    (''gpt-4o-mini'', mk_config OPENAI ''gpt-4o-mini'' 128000 1536),
    (''o1'', mk_config OPENAI ''o1'' 200000 1536),
    (''o1-mini'', mk_config OPENAI ''o1-mini'' 128000 1536),
    (''o3-mini'', mk_config OPENAI ''o3-mini'' 200000 1536),
    (''text-embedding-ada-002'', mk_config OPENAI ''text-embedding-ada-002'' 8191 1536),
    (''text-embedding-3-small'', mk_config OPENAI ''text-embedding-3-small'' 8191 1536),
    (''text-embedding-3-large'', mk_config OPENAI ''text-embedding-3-large'' 8191 3072),
    (''claude-3-opus-20240229'', mk_config ANTHROPIC ''claude-3-opus-20240229'' 200000 1536),
    (''claude-3-sonnet-20240229'', mk_config ANTHROPIC ''claude-3-sonnet-20240229'' 200000 1536),
    (''claude-3-haiku-20240307'', mk_config ANTHROPIC ''claude-3-haiku-20240307'' 200000 1536),
    (''claude-3-5-sonnet-20240620'', mk_config ANTHROPIC ''claude-3-5-sonnet-20240620'' 200000 1536),
    (''claude-3-7-sonnet-20250219'', mk_config ANTHROPIC ''claude-3-7-sonnet-20250219'' 200000 1536),
    (''claude-3-5-sonnet-20241022'', mk_config ANTHROPIC ''claude-3-5-sonnet-20241022'' 200000 1536),
    (''claude-3-5-haiku-20241022'', mk_config ANTHROPIC ''claude-3-5-haiku-20241022'' 200000 1536),
    (''claude-3-7-sonnet-latest'', mk_config ANTHROPIC ''claude-3-7-sonnet-20250219'' 200000 1536),
    (''claude-3-5-sonnet-latest'', mk_config ANTHROPIC ''claude-3-5-sonnet-20241022'' 200000 1536),
    (''claude-3-5-haiku-latest'', mk_config ANTHROPIC ''claude-3-5-haiku-20241022'' 200000 1536),
    (''claude-3-opus-latest'', mk_config ANTHROPIC ''claude-3-opus-20240229'' 200000 1536)]"

text \<open>
  \<open>get_model_config\<close>: the table's entry when the name is a key, otherwise (after a
  logged warning) the entry of \<open>gpt-4o-mini\<close>.  Both reads are subscriptions, which
  raise \<open>KeyError\<close> on a missing key, so the result type keeps the error branch.
\<close>

definition get_model_config :: "string \<Rightarrow> exn + ModelConfig" where
  "get_model_config model_name =
     (if dict_contains MODEL_CONFIGS model_name
      then dict_getitem MODEL_CONFIGS model_name
      else dict_getitem MODEL_CONFIGS ''gpt-4o-mini'')"

section \<open>llms.py: the provider clients\<close>

text \<open>
  The SDK client objects hold the arguments they were built with.  Whether the
  optional packages were importable is a parameter: the module binds \<open>AsyncOpenAI\<close>
  (resp. \<open>anthropic\<close>) to \<open>None\<close> when the import fails, and calling \<open>None\<close> raises
  \<open>TypeError\<close>, reading an attribute of \<open>None\<close> raises \<open>AttributeError\<close>.
\<close>

record AsyncOpenAI =
  sdk_api_key :: string
  sdk_base_url :: "string option"

record AsyncAnthropic =
  anthropic_sdk_api_key :: string

definition new_AsyncOpenAI :: "bool \<Rightarrow> string \<Rightarrow> string option \<Rightarrow> exn + AsyncOpenAI" where
  "new_AsyncOpenAI have_openai k b =
     (if have_openai then Inr \<lparr>sdk_api_key = k, sdk_base_url = b\<rparr> else Inl TypeError)"

definition new_AsyncAnthropic :: "bool \<Rightarrow> string \<Rightarrow> exn + AsyncAnthropic" where
  "new_AsyncAnthropic have_anthropic k =
     (if have_anthropic then Inr \<lparr>anthropic_sdk_api_key = k\<rparr> else Inl AttributeError)"

record OpenAIClientWrapper =
  api_key :: "string option"
  base_url :: "string option"
  completion_client :: "AsyncOpenAI option"
  embedding_client :: "AsyncOpenAI option"

record AnthropicClientWrapper =
  anthropic_api_key :: "string option"
  client :: "AsyncAnthropic option"

text \<open>
  \<open>OpenAIClientWrapper.__init__\<close>.  The first block builds both clients when a key is
  there (with or without a base URL).  The second block then checks the key and the
  import, and assigns both attributes again: clients when a base URL is there, \<open>None\<close>
  otherwise.
\<close>

definition OpenAIClientWrapper_init ::
  "bool \<Rightarrow> (string \<rightharpoonup> string) \<Rightarrow> string option \<Rightarrow> string option \<Rightarrow> exn + OpenAIClientWrapper" where
  "OpenAIClientWrapper_init have_openai environ api_key_arg base_url_arg =
     (let self_api_key = py_or api_key_arg (environ ''OPENAI_API_KEY'');
          self_base_url = py_or base_url_arg (environ ''OPENAI_API_BASE'');
          first_block =
            (if truthy self_api_key then
               (case new_AsyncOpenAI have_openai (the self_api_key)
                       (if truthy self_base_url then self_base_url else None) of
                  Inl e \<Rightarrow> Inl e
                | Inr c \<Rightarrow> Inr \<lparr>api_key = self_api_key, base_url = self_base_url,
                             completion_client = Some c, embedding_client = Some c\<rparr>)
             else Inr \<lparr>api_key = self_api_key, base_url = self_base_url,
                       completion_client = None, embedding_client = None\<rparr>)
      in case first_block of
           Inl e \<Rightarrow> Inl e
         | Inr self \<Rightarrow>
            (let openai_api_base = py_or base_url_arg (environ ''OPENAI_API_BASE'');
                 openai_api_key = py_or api_key_arg (environ ''OPENAI_API_KEY'')
             in if \<not> truthy openai_api_key then Inl (ValueError ''OpenAI API key is required'')
                else if \<not> have_openai
                  then Inl (ImportError ''openai package is required for OpenAIClientWrapper'')
                else if truthy openai_api_base then
                  (case new_AsyncOpenAI have_openai (the openai_api_key) openai_api_base of
                     Inl e \<Rightarrow> Inl e
                   | Inr c \<Rightarrow> Inr (self\<lparr>completion_client := Some c, embedding_client := Some c\<rparr>))
                else Inr (self\<lparr>completion_client := None, embedding_client := None\<rparr>)))"

text \<open>
  \<open>AnthropicClientWrapper.__init__\<close>: the conditional expression builds a client when
  a key is there; then the key and the import are checked and the client is built.
\<close>

definition AnthropicClientWrapper_init ::
  "bool \<Rightarrow> (string \<rightharpoonup> string) \<Rightarrow> string option \<Rightarrow> exn + AnthropicClientWrapper" where
  "AnthropicClientWrapper_init have_anthropic environ api_key_arg =
     (let self_api_key = py_or api_key_arg (environ ''ANTHROPIC_API_KEY'');
          first_client =
            (if truthy self_api_key
             then map_sum id Some (new_AsyncAnthropic have_anthropic (the self_api_key))
             else Inr None)
      in case first_client of
           Inl e \<Rightarrow> Inl e
         | Inr c0 \<Rightarrow>
            (let anthropic_api_key = py_or api_key_arg (environ ''ANTHROPIC_API_KEY'')
             in if \<not> truthy anthropic_api_key then Inl (ValueError ''Anthropic API key is required'')
                else if \<not> have_anthropic
                  then Inl (ImportError ''anthropic package is required for AnthropicClientWrapper'')
                else (case new_AsyncAnthropic have_anthropic (the anthropic_api_key) of
                        Inl e \<Rightarrow> Inl e
                      | Inr c \<Rightarrow> Inr \<lparr>anthropic_api_key = self_api_key, client = Some c\<rparr>)))"

text \<open>
  Chat requests and responses.  A prompt is the formatted template, kept as the
  template's name with its arguments; the Anthropic wrapper appends an instruction to
  the prompt when a JSON object is asked for.  A choice of a response is either an
  SDK object, whose \<open>.message.content\<close> is an optional string, or the dict
  that the Anthropic wrapper builds around its content string.  The usage
  counters of a response are read by nothing modelled here and are left out, and
  so are the arguments \<open>functions\<close> and \<open>function_call\<close>, which the extraction
  module never passes.
\<close>

datatype prompt =
    TopicsPrompt int string
  | DiscreteExtractionPrompt string int
  | WithJsonInstruction prompt

record request =
  req_model :: string
  req_prompt :: prompt
  req_json_object :: bool

datatype choice = ChoiceObject "string option" | ChoiceDict string

record ChatResponse =
  choices :: "choice list"

text \<open>
  The network is a parameter: \<open>openai_sdk\<close> and \<open>anthropic_sdk\<close> answer the \<open>n\<close>-th chat
  call of the run, by a response or by an exception.  The OpenAI SDK returns the
  choices; the Anthropic SDK returns content parts, each with a text or without one.
\<close>

definition OpenAI_create_chat_completion ::
  "(nat \<Rightarrow> AsyncOpenAI \<Rightarrow> request \<Rightarrow> exn + choice list) \<Rightarrow> nat \<Rightarrow> OpenAIClientWrapper
     \<Rightarrow> request \<Rightarrow> exn + ChatResponse" where
  "OpenAI_create_chat_completion openai_sdk n self req =
     (case completion_client self of
        None \<Rightarrow> Inl (ValueError ''OpenAI API key is not configured'')
      | Some c \<Rightarrow>
         (case openai_sdk n c req of
            Inl e \<Rightarrow> Inl e
          | Inr cs \<Rightarrow> Inr \<lparr>choices = cs\<rparr>))"

definition Anthropic_create_chat_completion ::
  "(nat \<Rightarrow> AsyncAnthropic \<Rightarrow> request \<Rightarrow> exn + string option list) \<Rightarrow> nat
     \<Rightarrow> AnthropicClientWrapper \<Rightarrow> request \<Rightarrow> exn + ChatResponse" where
  "Anthropic_create_chat_completion anthropic_sdk n self req =
     (case client self of
        None \<Rightarrow> Inl (ValueError ''Anthropic API key is not configured'')
      | Some c \<Rightarrow>
         (let req' = (if req_json_object req
                      then req\<lparr>req_prompt := WithJsonInstruction (req_prompt req)\<rparr> else req)
          in case anthropic_sdk n c req' of
               Inl e \<Rightarrow> Inl e
             | Inr parts \<Rightarrow>
                (let content = (case parts of Some t # _ \<Rightarrow> t | _ \<Rightarrow> [])
                 in Inr \<lparr>choices = [ChoiceDict content]\<rparr>)))"

text \<open>
  \<open>create_embedding\<close> sends the texts in batches of 20 and concatenates the rows.
  \<open>embed_sdk\<close> is the SDK's embedding call on one batch.
\<close>

function embed_batches ::
  "(AsyncOpenAI \<Rightarrow> string list \<Rightarrow> exn + 'f list list) \<Rightarrow> AsyncOpenAI \<Rightarrow> string list
     \<Rightarrow> exn + 'f list list" where
  "embed_batches embed_sdk c query_vec =
     (if query_vec = [] then Inr []
      else case embed_sdk c (take 20 query_vec) of
             Inl e \<Rightarrow> Inl e
           | Inr batch_embeddings \<Rightarrow>
              (case embed_batches embed_sdk c (drop 20 query_vec) of
                 Inl e \<Rightarrow> Inl e
               | Inr embeddings \<Rightarrow> Inr (batch_embeddings @ embeddings)))"
  by pat_completeness auto
termination
  by (relation "measure (\<lambda>(e, c, q). length q)") auto

definition OpenAI_create_embedding ::
  "(AsyncOpenAI \<Rightarrow> string list \<Rightarrow> exn + 'f list list) \<Rightarrow> OpenAIClientWrapper \<Rightarrow> string list
     \<Rightarrow> exn + 'f list list" where
  "OpenAI_create_embedding embed_sdk self query_vec =
     (case embedding_client self of
        None \<Rightarrow> Inl (ValueError ''OpenAI API key is not configured'')
      | Some c \<Rightarrow> embed_batches embed_sdk c query_vec)"

section \<open>llms.py: the client cache\<close>

text \<open>
  A cached client is a wrapper object; its first component is the object's identity,
  the number of wrapper objects the process had built before it.  The module state is
  the dict \<open>_model_clients\<close> and the providers whose wrapper was built, in order.
\<close>

datatype client_obj =
    OpenAIClient nat OpenAIClientWrapper
  | AnthropicClient nat AnthropicClientWrapper

record llms_state =
  model_clients :: "ModelProvider \<rightharpoonup> client_obj"
  constructed :: "ModelProvider list"

definition initial_llms_state :: llms_state where
  "initial_llms_state = \<lparr>model_clients = Map.empty, constructed = []\<rparr>"

datatype provider_arg = ByEnum ModelProvider | ByStr string

text \<open>\<open>ModelProvider(provider)\<close> on a string: the member with that value, or \<open>ValueError\<close>.\<close>

definition ModelProvider_of :: "provider_arg \<Rightarrow> exn + ModelProvider" where
  "ModelProvider_of p =
     (case p of
        ByEnum e \<Rightarrow> Inr e
      | ByStr s \<Rightarrow>
         (if s = ''openai'' then Inr OPENAI
          else if s = ''anthropic'' then Inr ANTHROPIC
          else Inl (ValueError s)))"

definition construct_client ::
  "bool \<Rightarrow> bool \<Rightarrow> (string \<rightharpoonup> string) \<Rightarrow> nat \<Rightarrow> ModelProvider \<Rightarrow> exn + client_obj" where
  "construct_client have_openai have_anthropic environ oid p =
     (case p of
        OPENAI \<Rightarrow>
          map_sum id (OpenAIClient oid)
            (OpenAIClientWrapper_init have_openai environ (environ ''OPENAI_API_KEY'') None)
      | ANTHROPIC \<Rightarrow>
          map_sum id (AnthropicClient oid)
            (AnthropicClientWrapper_init have_anthropic environ (environ ''ANTHROPIC_API_KEY'')))"

definition get_model_client ::
  "bool \<Rightarrow> bool \<Rightarrow> (string \<rightharpoonup> string) \<Rightarrow> provider_arg \<Rightarrow> llms_state
     \<Rightarrow> exn + (client_obj \<times> llms_state)" where
  "get_model_client have_openai have_anthropic environ p s =
     (case ModelProvider_of p of
        Inl e \<Rightarrow> Inl e
      | Inr provider_enum \<Rightarrow>
         (case model_clients s provider_enum of
            Some c \<Rightarrow> Inr (c, s)
          | None \<Rightarrow>
             (case construct_client have_openai have_anthropic environ
                     (length (constructed s)) provider_enum of
                Inl e \<Rightarrow> Inl e
              | Inr c \<Rightarrow>
                 Inr (c, s\<lparr>model_clients := (model_clients s)(provider_enum \<mapsto> c),
                           constructed := constructed s @ [provider_enum]\<rparr>))))"

text \<open>
  A process as a sequence of calls, each with the environment of its moment; a call
  that raises leaves the module state as it was.
\<close>

fun run_calls ::
  "bool \<Rightarrow> bool \<Rightarrow> ((string \<rightharpoonup> string) \<times> provider_arg) list \<Rightarrow> llms_state \<Rightarrow> llms_state" where
  "run_calls ho ha [] s = s"
| "run_calls ho ha ((environ, p) # cs) s =
     (case get_model_client ho ha environ p s of
        Inl e \<Rightarrow> run_calls ho ha cs s
      | Inr (c, s') \<Rightarrow> run_calls ho ha cs s')"

text \<open>
  The invariant of the module state: no provider was built twice, and every provider
  that was built is a key of \<open>_model_clients\<close>.
\<close>

definition built_once :: "llms_state \<Rightarrow> bool" where
  "built_once s = (distinct (constructed s) \<and> set (constructed s) \<subseteq> dom (model_clients s))"

section \<open>extraction.py: statistical topics and entities\<close>

text \<open>The fields of \<open>settings\<close> that the extraction module reads.\<close>

record Settings =
  generation_model :: string
  topic_model :: string
  top_k_topics :: int

text \<open>
  The BERTopic side of the module state: the result cache \<open>_bertopic_cache\<close>, whether
  \<open>_topic_model\<close> has been loaded, and the texts handed to \<open>model.transform\<close>, one
  entry per call.
\<close>

record bertopic_state =
  bertopic_cache :: "(string \<times> int) \<rightharpoonup> string list"
  topic_model_loaded :: bool
  transformed :: "string list"

text \<open>
  \<open>get_topic_model\<close> loads the model on first use; \<open>load\<close> is the exception that
  \<open>BERTopic.load\<close> raises, if it raises.
\<close>

definition get_topic_model :: "exn option \<Rightarrow> bertopic_state \<Rightarrow> exn + bertopic_state" where
  "get_topic_model load s =
     (if topic_model_loaded s then Inr s
      else case load of
             Some e \<Rightarrow> Inl e
           | None \<Rightarrow> Inr (s\<lparr>topic_model_loaded := True\<rparr>))"

text \<open>
  The loop over \<open>enumerate(topic_indices)\<close>: it stops at position \<open>i\<close> when the count is
  non-zero and \<open>i\<close> has reached it, skips the outlier topic \<open>-1\<close>, and appends the terms
  of a topic whose info is non-empty.
\<close>

fun topics_loop ::
  "(int \<Rightarrow> (string \<times> real) list) \<Rightarrow> int \<Rightarrow> nat \<Rightarrow> int list \<Rightarrow> string list \<Rightarrow> string list" where
  "topics_loop get_topic num_topics i [] topics = topics"
| "topics_loop get_topic num_topics i (topic_idx # rest) topics =
     (if num_topics \<noteq> 0 \<and> int i \<ge> num_topics then topics
      else topics_loop get_topic num_topics (Suc i) rest
             (if topic_idx \<noteq> - 1
              then (let topic_info = get_topic topic_idx
                    in if topic_info \<noteq> [] then topics @ map fst topic_info else topics)
              else topics))"

text \<open>The count in force: the argument, or \<open>settings.top_k_topics\<close> when it is \<open>None\<close>.\<close>

definition effective_num_topics :: "Settings \<Rightarrow> int option \<Rightarrow> int" where
  "effective_num_topics settings num_topics =
     (case num_topics of Some n \<Rightarrow> n | None \<Rightarrow> top_k_topics settings)"

text \<open>
  \<open>extract_topics_bertopic\<close>.  The model is a parameter: \<open>transform n text\<close> is what the
  \<open>n\<close>-th call of \<open>model.transform\<close> of the process answers on \<open>[text]\<close>, topic indices
  or an exception, and \<open>get_topic\<close> gives the weighted terms of a topic.
\<close>

definition extract_topics_bertopic ::
  "exn option \<Rightarrow> (nat \<Rightarrow> string \<Rightarrow> exn + int list) \<Rightarrow> (int \<Rightarrow> (string \<times> real) list) \<Rightarrow> Settings
     \<Rightarrow> string \<Rightarrow> int option \<Rightarrow> bertopic_state \<Rightarrow> exn + (string list \<times> bertopic_state)" where
  "extract_topics_bertopic load transform get_topic settings text' num_topics s =
     (let num_topics' = effective_num_topics settings num_topics;
          cache_key = (text', num_topics')
      in case bertopic_cache s cache_key of
           Some cached \<Rightarrow> Inr (cached, s)
         | None \<Rightarrow>
            (case get_topic_model load s of
               Inl e \<Rightarrow> Inl e
             | Inr s1 \<Rightarrow>
                (case transform (length (transformed s1)) text' of
                   Inl e \<Rightarrow> Inl e
                 | Inr topic_indices \<Rightarrow>
                    (let s2 = s1\<lparr>transformed := transformed s1 @ [text']\<rparr>;
                         topics = topics_loop get_topic num_topics' 0 topic_indices []
                     in Inr (topics, s2\<lparr>bertopic_cache := (bertopic_cache s2)(cache_key \<mapsto> topics)\<rparr>)))))"












section \<open>extraction.py: JSON values and memory records\<close>

text \<open>
  What \<open>json.loads\<close> returns.  An object is kept as the association list of the
  resulting dict.  \<open>json.loads\<close> itself is a parameter of the model, a function from
  the text to the value, \<open>None\<close> standing for \<open>JSONDecodeError\<close>; on \<open>None\<close> instead of a
  string it raises \<open>TypeError\<close>.
\<close>

datatype json =
    JNull
  | JBool bool
  | JInt int
  | JFloat real
  | JString string
  | JArray "json list"
  | JObject "(string \<times> json) list"

definition py_json_loads :: "(string \<Rightarrow> json option) \<Rightarrow> string option \<Rightarrow> exn + json" where
  "py_json_loads loads content =
     (case content of
        None \<Rightarrow> Inl TypeError
      | Some s \<Rightarrow> (case loads s of None \<Rightarrow> Inl JSONDecodeError | Some v \<Rightarrow> Inr v))"

text \<open>\<open>v[k]\<close> with a string key: the entry of a dict, \<open>TypeError\<close> on every other value.\<close>

definition json_getitem :: "json \<Rightarrow> string \<Rightarrow> exn + json" where
  "json_getitem v k = (case v of JObject d \<Rightarrow> dict_getitem d k | _ \<Rightarrow> Inl TypeError)"

definition json_truthy :: "json \<Rightarrow> bool" where
  "json_truthy v =
     (case v of
        JNull \<Rightarrow> False
      | JBool b \<Rightarrow> b
      | JInt n \<Rightarrow> n \<noteq> 0
      | JFloat r \<Rightarrow> r \<noteq> 0
      | JString s \<Rightarrow> s \<noteq> []
      | JArray xs \<Rightarrow> xs \<noteq> []
      | JObject d \<Rightarrow> d \<noteq> [])"

text \<open>
  The slice \<open>v[:n]\<close>: a prefix of a list or of a string (a negative \<open>n\<close> counts from the
  end); every other value raises.
\<close>

definition py_slice_to :: "'a list \<Rightarrow> int \<Rightarrow> 'a list" where
  "py_slice_to xs n = (if 0 \<le> n then take (nat n) xs else take (length xs - nat (- n)) xs)"

definition json_slice_to :: "json \<Rightarrow> int \<Rightarrow> exn + json" where
  "json_slice_to v n =
     (case v of
        JArray xs \<Rightarrow> Inr (JArray (py_slice_to xs n))
      | JString s \<Rightarrow> Inr (JString (py_slice_to s n))
      | _ \<Rightarrow> Inl TypeError)"

text \<open>\<open>d.get(k, default)\<close> on a dict.\<close>

definition dict_get :: "(string \<times> 'v) list \<Rightarrow> string \<Rightarrow> 'v \<Rightarrow> 'v" where
  "dict_get d k dflt = (case map_of d k of None \<Rightarrow> dflt | Some v \<Rightarrow> v)"

text \<open>
  Modelled from the spec: the class \<open>MemoryRecord\<close> of \<open>agent_memory_server.models\<close>,
  which is not among the sources.  The spec gives its fields: an id, the text, a
  memory type among \<open>episodic\<close>, \<open>semantic\<close> and \<open>message\<close>, topics and entities as
  strings, and the extraction flag \<open>t\<close> or \<open>f\<close>.  Building a record from values that
  do not have these shapes is a validation error.
\<close>

record MemoryRecord =
  id' :: string
  "text" :: string
  memory_type :: string
  topics :: "string list"
  entities :: "string list"
  discrete_memory_extracted :: string

fun json_strings :: "json list \<Rightarrow> string list option" where
  "json_strings [] = Some []"
| "json_strings (JString s # vs) = map_option ((#) s) (json_strings vs)"
| "json_strings (_ # vs) = None"

definition MemoryRecord_validate ::
  "string \<Rightarrow> json \<Rightarrow> json \<Rightarrow> json \<Rightarrow> json \<Rightarrow> string \<Rightarrow> exn + MemoryRecord" where
  "MemoryRecord_validate i t ty tops ents flag =
     (case (t, ty, tops, ents) of
        (JString t', JString ty', JArray tops', JArray ents') \<Rightarrow>
          (case (json_strings tops', json_strings ents') of
             (Some tops'', Some ents'') \<Rightarrow>
               (if ty' \<in> {''episodic'', ''semantic'', ''message''}
                then Inr \<lparr>id' = i, text = t', memory_type = ty', topics = tops'',
                          entities = ents'', discrete_memory_extracted = flag\<rparr>
                else Inl ValidationError)
           | _ \<Rightarrow> Inl ValidationError)
      | _ \<Rightarrow> Inl ValidationError)"

text \<open>
  One element of the comprehension that builds the new records: the id is a fresh
  ULID, the text is \<open>new_memory["text"]\<close>, the type defaults to \<open>episodic\<close>, topics
  and entities default to the empty list, and the flag is \<open>t\<close>.  Subscripting or
  calling \<open>.get\<close> on a value that is not a dict raises.
\<close>

definition new_memory_record :: "string \<Rightarrow> json \<Rightarrow> exn + MemoryRecord" where
  "new_memory_record fresh_id new_memory =
     (case new_memory of
        JObject d \<Rightarrow>
          (case dict_getitem d ''text'' of
             Inl e \<Rightarrow> Inl e
           | Inr t \<Rightarrow>
               MemoryRecord_validate fresh_id t
                 (dict_get d ''type'' (JString ''episodic''))
                 (dict_get d ''topics'' (JArray []))
                 (dict_get d ''entities'' (JArray []))
                 ''t'')
      | _ \<Rightarrow> Inl TypeError)"

fun long_term_memories_of :: "(nat \<Rightarrow> string) \<Rightarrow> nat \<Rightarrow> json list \<Rightarrow> exn + MemoryRecord list" where
  "long_term_memories_of ulid n [] = Inr []"
| "long_term_memories_of ulid n (new_memory # rest) =
     (case new_memory_record (ulid n) new_memory of
        Inl e \<Rightarrow> Inl e
      | Inr r \<Rightarrow>
         (case long_term_memories_of ulid (Suc n) rest of
            Inl e \<Rightarrow> Inl e
          | Inr rs \<Rightarrow> Inr (r # rs)))"

section \<open>extraction.py: the runtime and the retry loop\<close>

text \<open>
  What the code calls outside itself, in the order of their use: the adapter's
  search, delete and update, the long-term indexing routine, and the chat
  completions of the client.  A run is described by the events it appends.
  \<open>SearchMemories\<close> carries the query, the two filter values, the limit and the
  offset.
\<close>

datatype event =
    ChatCompletion request
  | SearchMemories string string string nat nat
  | DeleteMemories "string list"
  | UpdateMemories "MemoryRecord list"
  | IndexLongTermMemories "MemoryRecord list" bool

text \<open>
  The surroundings of a run: whether the SDK packages were importable, the process
  environment, the settings, \<open>json.loads\<close>, the two networks (answering the \<open>n\<close>-th
  chat call of the run), the adapter's answer to a search at an offset, and the
  \<open>n\<close>-th identifier that \<open>ulid.ULID()\<close> generates.  The adapter's delete and update
  and the indexing routine are taken to return; they are recorded as events.
\<close>

record runtime =
  openai_importable :: bool
  anthropic_importable :: bool
  os_environ :: "string \<rightharpoonup> string"
  app_settings :: Settings
  json_loads :: "string \<Rightarrow> json option"
  openai_network :: "nat \<Rightarrow> AsyncOpenAI \<Rightarrow> request \<Rightarrow> exn + choice list"
  anthropic_network :: "nat \<Rightarrow> AsyncAnthropic \<Rightarrow> request \<Rightarrow> exn + string option list"
  adapter_search :: "nat \<Rightarrow> MemoryRecord list"
  new_ulid :: "nat \<Rightarrow> string"

record extraction_state =
  llms :: llms_state
  chat_calls :: nat
  ulids :: nat
  trace :: "event list"

text \<open>
  \<open>client.create_chat_completion\<close> on whichever wrapper the client is:
  \<open>chat_answer\<close> is what the \<open>n\<close>-th call of the run answers, and the call is counted
  and recorded.
\<close>

definition chat_answer :: "runtime \<Rightarrow> client_obj \<Rightarrow> nat \<Rightarrow> request \<Rightarrow> exn + ChatResponse" where
  "chat_answer rt c n req =
     (case c of
        OpenAIClient oid w \<Rightarrow> OpenAI_create_chat_completion (openai_network rt) n w req
      | AnthropicClient oid w \<Rightarrow> Anthropic_create_chat_completion (anthropic_network rt) n w req)"

definition create_chat_completion ::
  "runtime \<Rightarrow> client_obj \<Rightarrow> request \<Rightarrow> extraction_state
     \<Rightarrow> (exn + ChatResponse) \<times> extraction_state" where
  "create_chat_completion rt c req st =
     (chat_answer rt c (chat_calls st) req,
      st\<lparr>chat_calls := Suc (chat_calls st), trace := trace st @ [ChatCompletion req]\<rparr>)"

text \<open>
  \<open>response.choices[0].message.content\<close>: \<open>IndexError\<close> without choices, \<open>AttributeError\<close>
  on a dict-shaped choice, which has no attribute \<open>message\<close>.
\<close>

definition message_content :: "ChatResponse \<Rightarrow> exn + string option" where
  "message_content response =
     (case choices response of
        [] \<Rightarrow> Inl IndexError
      | ChoiceObject content # _ \<Rightarrow> Inr content
      | ChoiceDict content # _ \<Rightarrow> Inl AttributeError)"

text \<open>
  tenacity's \<open>AsyncRetrying(stop=stop_after_attempt(n))\<close> around a body: the body runs;
  when it raises and the number of the attempt has reached \<open>n\<close>, \<open>RetryError\<close> is raised
  with the attempt's exception, otherwise the body runs again (no wait is configured).
  A body that returns ends the loop.  The state changes of failed attempts stay.
\<close>

function retry_loop ::
  "nat \<Rightarrow> nat \<Rightarrow> ('s \<Rightarrow> (exn + 'a) \<times> 's) \<Rightarrow> 's \<Rightarrow> (exn + 'a) \<times> 's" where
  "retry_loop max_attempt_number attempt_number body s =
     (case body s of
        (Inr v, s') \<Rightarrow> (Inr v, s')
      | (Inl e, s') \<Rightarrow>
         (if attempt_number \<ge> max_attempt_number then (Inl (RetryError e), s')
          else retry_loop max_attempt_number (Suc attempt_number) body s'))"
  by pat_completeness auto
termination
  by (relation "measure (\<lambda>(m, k, b, s). m - k)") auto

definition AsyncRetrying :: "nat \<Rightarrow> ('s \<Rightarrow> (exn + 'a) \<times> 's) \<Rightarrow> 's \<Rightarrow> (exn + 'a) \<times> 's" where
  "AsyncRetrying stop_after_attempt body s = retry_loop stop_after_attempt 1 body s"

section \<open>extraction.py: topics from the LLM\<close>

text \<open>
  The \<open>try\<close> of an attempt of \<open>extract_topics_llm\<close>: the content of the first choice,
  decoded, subscripted with \<open>topics\<close>.  Its handler catches \<open>JSONDecodeError\<close> and
  \<open>KeyError\<close> and nothing else.
\<close>

definition topics_try :: "(string \<Rightarrow> json option) \<Rightarrow> ChatResponse \<Rightarrow> exn + json" where
  "topics_try loads response =
     (case message_content response of
        Inl e \<Rightarrow> Inl e
      | Inr content \<Rightarrow>
         (case py_json_loads loads content of
            Inl e \<Rightarrow> Inl e
          | Inr v \<Rightarrow> json_getitem v ''topics''))"

definition topics_except :: "exn \<Rightarrow> bool" where
  "topics_except e = (case e of JSONDecodeError \<Rightarrow> True | KeyError k \<Rightarrow> True | _ \<Rightarrow> False)"

text \<open>
  The body of one attempt: the chat call, which may raise; the \<open>try\<close>, whose handler
  sets the topics to the empty list; the truncation of truthy topics to the count.
  \<open>topics_of_answer\<close> is what the attempt makes of the answer of its chat call.
\<close>

definition topics_of_answer ::
  "(string \<Rightarrow> json option) \<Rightarrow> int \<Rightarrow> exn + ChatResponse \<Rightarrow> exn + json" where
  "topics_of_answer loads num_topics answer =
     (case answer of
        Inl e \<Rightarrow> Inl e
      | Inr response \<Rightarrow>
         (case (case topics_try loads response of
                  Inl e \<Rightarrow> if topics_except e then Inr (JArray []) else Inl e
                | Inr v \<Rightarrow> Inr v) of
            Inl e \<Rightarrow> Inl e
          | Inr v \<Rightarrow> if json_truthy v then json_slice_to v num_topics else Inr v))"

definition topics_attempt ::
  "runtime \<Rightarrow> client_obj \<Rightarrow> request \<Rightarrow> int \<Rightarrow> extraction_state
     \<Rightarrow> (exn + json) \<times> extraction_state" where
  "topics_attempt rt c req num_topics st =
     (case create_chat_completion rt c req st of
        (answer, st') \<Rightarrow> (topics_of_answer (json_loads rt) num_topics answer, st'))"

text \<open>
  \<open>extract_topics_llm\<close>: the client is the argument when one is given, otherwise the
  cached client of the provider of \<open>settings.topic_model\<close>; then three attempts at most.
\<close>

definition topics_client ::
  "runtime \<Rightarrow> client_obj option \<Rightarrow> extraction_state \<Rightarrow> exn + client_obj \<times> extraction_state" where
  "topics_client rt client_arg st =
     (case client_arg of
        Some c \<Rightarrow> Inr (c, st)
      | None \<Rightarrow>
         (case get_model_config (topic_model (app_settings rt)) of
            Inl e \<Rightarrow> Inl e
          | Inr config \<Rightarrow>
             (case get_model_client (openai_importable rt) (anthropic_importable rt)
                     (os_environ rt) (ByEnum (provider config)) (llms st) of
                Inl e \<Rightarrow> Inl e
              | Inr (c, l) \<Rightarrow> Inr (c, st\<lparr>llms := l\<rparr>))))"

definition topics_request :: "runtime \<Rightarrow> string \<Rightarrow> int option \<Rightarrow> request" where
  "topics_request rt t num_topics =
     \<lparr>req_model = generation_model (app_settings rt),
      req_prompt = TopicsPrompt (effective_num_topics (app_settings rt) num_topics) t,
      req_json_object = True\<rparr>"

definition extract_topics_llm ::
  "runtime \<Rightarrow> string \<Rightarrow> int option \<Rightarrow> client_obj option \<Rightarrow> extraction_state
     \<Rightarrow> (exn + json) \<times> extraction_state" where
  "extract_topics_llm rt t num_topics client_arg st =
     (case topics_client rt client_arg st of
        Inl e \<Rightarrow> (Inl e, st)
      | Inr (c, st1) \<Rightarrow>
          AsyncRetrying 3
            (topics_attempt rt c (topics_request rt t num_topics)
               (effective_num_topics (app_settings rt) num_topics)) st1)"

section \<open>extraction.py: discrete memories\<close>

text \<open>
  What an attempt of the discrete extraction makes of a response: the content of the
  first choice, decoded (a decoding error is logged and raised again), asserted to be
  a dict whose \<open>memories\<close> is a list.  A dict without \<open>memories\<close> raises \<open>KeyError\<close>.
\<close>

definition parse_memories :: "(string \<Rightarrow> json option) \<Rightarrow> ChatResponse \<Rightarrow> exn + json list" where
  "parse_memories loads response =
     (case message_content response of
        Inl e \<Rightarrow> Inl e
      | Inr content \<Rightarrow>
         (case py_json_loads loads content of
            Inl e \<Rightarrow> Inl e
          | Inr new_message \<Rightarrow>
             (case new_message of
                JObject d \<Rightarrow>
                  (case dict_getitem d ''memories'' of
                     Inl e \<Rightarrow> Inl e
                   | Inr (JArray ms) \<Rightarrow> Inr ms
                   | Inr _ \<Rightarrow> Inl AssertionError)
              | _ \<Rightarrow> Inl AssertionError)))"

definition discrete_request :: "runtime \<Rightarrow> MemoryRecord \<Rightarrow> request" where
  "discrete_request rt memory =
     \<lparr>req_model = generation_model (app_settings rt),
      req_prompt = DiscreteExtractionPrompt (text memory) (top_k_topics (app_settings rt)),
      req_json_object = True\<rparr>"

text \<open>
  The body of one attempt on a record.  Its state is \<open>new_discrete_memories\<close> with the
  state of the run; the list is extended as the last step of an attempt that did not
  raise.  \<open>memories_of_answer\<close> is what the attempt makes of the answer of its chat
  call.
\<close>

definition memories_of_answer ::
  "(string \<Rightarrow> json option) \<Rightarrow> exn + ChatResponse \<Rightarrow> exn + json list" where
  "memories_of_answer loads answer =
     (case answer of Inl e \<Rightarrow> Inl e | Inr response \<Rightarrow> parse_memories loads response)"

definition discrete_attempt ::
  "runtime \<Rightarrow> client_obj \<Rightarrow> MemoryRecord \<Rightarrow> json list \<times> extraction_state
     \<Rightarrow> (exn + unit) \<times> (json list \<times> extraction_state)" where
  "discrete_attempt rt c memory s =
     (case s of (new_discrete_memories, st) \<Rightarrow>
        (case create_chat_completion rt c (discrete_request rt memory) st of
           (answer, st') \<Rightarrow>
             (case memories_of_answer (json_loads rt) answer of
                Inl e \<Rightarrow> (Inl e, (new_discrete_memories, st'))
              | Inr ms \<Rightarrow> (Inr (), (new_discrete_memories @ ms, st')))))"

text \<open>
  The loop over the records.  A record without text is deleted through the adapter
  and skipped.  Otherwise three attempts at most; when they are exhausted the
  exception leaves the loop, and after an attempt that returned the record's copy
  with the flag \<open>t\<close> joins \<open>updated_memories\<close>.
\<close>

fun process_memories ::
  "runtime \<Rightarrow> client_obj \<Rightarrow> MemoryRecord list \<Rightarrow> json list \<Rightarrow> MemoryRecord list
     \<Rightarrow> extraction_state \<Rightarrow> (exn + json list \<times> MemoryRecord list) \<times> extraction_state" where
  "process_memories rt c [] new_discrete_memories updated_memories st =
     (Inr (new_discrete_memories, updated_memories), st)"
| "process_memories rt c (memory # memories) new_discrete_memories updated_memories st =
     (if text memory = []
      then process_memories rt c memories new_discrete_memories updated_memories
             (st\<lparr>trace := trace st @ [DeleteMemories [id' memory]]\<rparr>)
      else case AsyncRetrying 3 (discrete_attempt rt c memory) (new_discrete_memories, st) of
             (Inl e, (new', st')) \<Rightarrow> (Inl e, st')
           | (Inr u, (new', st')) \<Rightarrow>
               process_memories rt c memories new'
                 (updated_memories @ [memory\<lparr>discrete_memory_extracted := ''t''\<rparr>]) st')"

text \<open>
  The selection loop: pages of 25 at growing offsets, accumulated until a page is
  shorter than 25.  The loop need not end, so its result is an option.
\<close>

partial_function (option) scan_memories ::
  "runtime \<Rightarrow> MemoryRecord list \<Rightarrow> nat \<Rightarrow> extraction_state
     \<Rightarrow> (MemoryRecord list \<times> extraction_state) option" where
  "scan_memories rt memories offset st =
     (let search_result = adapter_search rt offset;
          st' = st\<lparr>trace := trace st @ [SearchMemories [] ''message'' ''f'' 25 offset]\<rparr>;
          memories' = memories @ search_result
      in if length search_result < 25 then Some (memories', st')
         else scan_memories rt memories' (offset + 25) st')"

declare scan_memories.simps [code]

text \<open>
  After the loop: the bulk update of the flagged copies when there are any, then the
  new records, built from what the attempts collected, handed to the indexing
  routine in one call when there are any.
\<close>

definition flush_memories ::
  "runtime \<Rightarrow> bool \<Rightarrow> json list \<Rightarrow> MemoryRecord list \<Rightarrow> extraction_state
     \<Rightarrow> (exn + unit) \<times> extraction_state" where
  "flush_memories rt deduplicate new_discrete_memories updated_memories st =
     (let st1 = (if updated_memories \<noteq> []
                 then st\<lparr>trace := trace st @ [UpdateMemories updated_memories]\<rparr> else st)
      in if new_discrete_memories \<noteq> [] then
           (case long_term_memories_of (new_ulid rt) (ulids st1) new_discrete_memories of
              Inl e \<Rightarrow> (Inl e, st1)
            | Inr long_term_memories \<Rightarrow>
               (Inr (), st1\<lparr>ulids := ulids st1 + length new_discrete_memories,
                             trace := trace st1
                               @ [IndexLongTermMemories long_term_memories deduplicate]\<rparr>))
         else (Inr (), st1))"

text \<open>
  \<open>extract_discrete_memories\<close>: the client of the provider of the generation model,
  the selection when no records (or an empty list) are given, the loop, the flush.
  \<open>None\<close> is a selection that does not end.
\<close>

definition select_memories ::
  "runtime \<Rightarrow> MemoryRecord list option \<Rightarrow> extraction_state
     \<Rightarrow> (MemoryRecord list \<times> extraction_state) option" where
  "select_memories rt memories st =
     (case memories of
        None \<Rightarrow> scan_memories rt [] 0 st
      | Some [] \<Rightarrow> scan_memories rt [] 0 st
      | Some (m # ms) \<Rightarrow> Some (m # ms, st))"

definition extract_discrete_memories ::
  "runtime \<Rightarrow> MemoryRecord list option \<Rightarrow> bool \<Rightarrow> extraction_state
     \<Rightarrow> ((exn + unit) \<times> extraction_state) option" where
  "extract_discrete_memories rt memories deduplicate st =
     (case get_model_config (generation_model (app_settings rt)) of
        Inl e \<Rightarrow> Some (Inl e, st)
      | Inr config \<Rightarrow>
         (case get_model_client (openai_importable rt) (anthropic_importable rt)
                 (os_environ rt) (ByEnum (provider config)) (llms st) of
            Inl e \<Rightarrow> Some (Inl e, st)
          | Inr (c, l) \<Rightarrow>
             (case select_memories rt memories (st\<lparr>llms := l\<rparr>) of
                None \<Rightarrow> None
              | Some (selected, st1) \<Rightarrow>
                 (case process_memories rt c selected [] [] st1 of
                    (Inl e, st2) \<Rightarrow> Some (Inl e, st2)
                  | (Inr (new_discrete_memories, updated_memories), st2) \<Rightarrow>
                      Some (flush_memories rt deduplicate new_discrete_memories
                              updated_memories st2)))))"

text \<open>The events a run has appended to the trace, and the kinds of events.\<close>

definition events_since :: "extraction_state \<Rightarrow> extraction_state \<Rightarrow> event list" where
  "events_since st st' = drop (length (trace st)) (trace st')"

definition is_chat :: "event \<Rightarrow> bool" where
  "is_chat e = (case e of ChatCompletion req \<Rightarrow> True | _ \<Rightarrow> False)"

definition is_search :: "event \<Rightarrow> bool" where
  "is_search e = (case e of SearchMemories q ty fl n off \<Rightarrow> True | _ \<Rightarrow> False)"

definition is_delete :: "event \<Rightarrow> bool" where
  "is_delete e = (case e of DeleteMemories ids \<Rightarrow> True | _ \<Rightarrow> False)"

definition is_update :: "event \<Rightarrow> bool" where
  "is_update e = (case e of UpdateMemories ms \<Rightarrow> True | _ \<Rightarrow> False)"

definition is_index :: "event \<Rightarrow> bool" where
  "is_index e = (case e of IndexLongTermMemories ms d \<Rightarrow> True | _ \<Rightarrow> False)"

text \<open>A storage write is a delete, an update or an indexing call.\<close>

definition is_write :: "event \<Rightarrow> bool" where
  "is_write e = (is_delete e \<or> is_update e \<or> is_index e)"

text \<open>
  For stating what a run does: the state after \<open>k\<close> chat calls with a request, and the
  outcome of the attempt whose chat call is the \<open>n\<close>-th of the run.
\<close>

definition after_chats :: "request \<Rightarrow> nat \<Rightarrow> extraction_state \<Rightarrow> extraction_state" where
  "after_chats req k st =
     st\<lparr>chat_calls := chat_calls st + k, trace := trace st @ replicate k (ChatCompletion req)\<rparr>"

definition topics_outcome ::
  "runtime \<Rightarrow> client_obj \<Rightarrow> string \<Rightarrow> int option \<Rightarrow> nat \<Rightarrow> exn + json" where
  "topics_outcome rt c t num_topics n =
     topics_of_answer (json_loads rt) (effective_num_topics (app_settings rt) num_topics)
       (chat_answer rt c n (topics_request rt t num_topics))"

definition memories_outcome :: "runtime \<Rightarrow> client_obj \<Rightarrow> MemoryRecord \<Rightarrow> nat \<Rightarrow> exn + json list" where
  "memories_outcome rt c memory n =
     memories_of_answer (json_loads rt) (chat_answer rt c n (discrete_request rt memory))"

text \<open>
  What the loop over the records appends for a batch: chat calls for records with
  text, deletions of records without.  And the search event of the selection at an
  offset: the empty query, the filters \<open>message\<close> and \<open>f\<close>, the limit 25.
\<close>

definition loop_event :: "runtime \<Rightarrow> MemoryRecord list \<Rightarrow> event \<Rightarrow> bool" where
  "loop_event rt ms e =
     (\<exists>m \<in> set ms. (text m \<noteq> [] \<and> e = ChatCompletion (discrete_request rt m))
                  \<or> (text m = [] \<and> e = DeleteMemories [id' m]))"

definition search_at :: "nat \<Rightarrow> event" where
  "search_at offset = SearchMemories [] ''message'' ''f'' 25 offset"

section \<open>Responses as the claims describe them\<close>

text \<open>
  The claims speak of the model's response, not of what the code makes of it.  The
  text of a response is the content of its first choice, in whichever of the two
  shapes the choice is.  \<open>memories_envelope\<close> is the shape the discrete extraction
  validates: a dict whose \<open>memories\<close> is a list.  In the claims' words a response is
  malformed when its text cannot be decoded as JSON or decodes to a value that
  fails the shape validation; these definitions follow those words and are compared
  with \<open>parse_memories\<close> below.
\<close>

definition response_text :: "ChatResponse \<Rightarrow> string option" where
  "response_text response =
     (case choices response of
        [] \<Rightarrow> None
      | ChoiceObject content # _ \<Rightarrow> content
      | ChoiceDict content # _ \<Rightarrow> Some content)"

definition memories_envelope :: "json \<Rightarrow> json list option" where
  "memories_envelope v =
     (case v of
        JObject d \<Rightarrow> (case map_of d ''memories'' of Some (JArray ms) \<Rightarrow> Some ms | _ \<Rightarrow> None)
      | _ \<Rightarrow> None)"

definition malformed_response :: "(string \<Rightarrow> json option) \<Rightarrow> ChatResponse \<Rightarrow> bool" where
  "malformed_response loads response =
     (case response_text response of
        None \<Rightarrow> False
      | Some s \<Rightarrow> (case loads s of None \<Rightarrow> True | Some v \<Rightarrow> memories_envelope v = None))"

section \<open>Concrete runs\<close>

text \<open>
  A process with an OpenAI key and base URL in its environment and the default
  settings, at its start.  In \<open>undecodable_runtime\<close> the model answers every chat call
  with a text that is not JSON; in \<open>failing_runtime\<close> every chat call raises.
\<close>

definition example_settings :: Settings where
  "example_settings =
     \<lparr>generation_model = ''gpt-4o-mini'', topic_model = ''gpt-4o-mini'', top_k_topics = 3\<rparr>"

definition example_environ :: "string \<rightharpoonup> string" where
  "example_environ =
     [''OPENAI_API_KEY'' \<mapsto> ''test-key'', ''OPENAI_API_BASE'' \<mapsto> ''http://localhost/v1'']"

definition undecodable_runtime :: runtime where
  "undecodable_runtime =
     \<lparr>openai_importable = True, anthropic_importable = True,
      os_environ = example_environ, app_settings = example_settings,
      json_loads = (\<lambda>s. None),
      openai_network = (\<lambda>n c req. Inr [ChoiceObject (Some ''not json'')]),
      anthropic_network = (\<lambda>n c req. Inl (ProviderError ''unused'')),
      adapter_search = (\<lambda>offset. []),
      new_ulid = (\<lambda>n. ''01J'' @ replicate n CHR ''0'')\<rparr>"

definition failing_runtime :: runtime where
  "failing_runtime =
     undecodable_runtime\<lparr>openai_network := (\<lambda>n c req. Inl (ProviderError ''connection refused''))\<rparr>"

definition fresh_state :: extraction_state where
  "fresh_state = \<lparr>llms = initial_llms_state, chat_calls = 0, ulids = 0, trace = []\<rparr>"

definition example_client :: client_obj where
  "example_client =
     OpenAIClient 0
       \<lparr>api_key = Some ''test-key'', base_url = Some ''http://localhost/v1'',
        completion_client = Some \<lparr>sdk_api_key = ''test-key'',
                                     sdk_base_url = Some ''http://localhost/v1''\<rparr>,
        embedding_client = Some \<lparr>sdk_api_key = ''test-key'',
                                    sdk_base_url = Some ''http://localhost/v1''\<rparr>\<rparr>"

definition with_client :: "extraction_state \<Rightarrow> extraction_state" where
  "with_client st =
     st\<lparr>llms := \<lparr>model_clients = [OPENAI \<mapsto> example_client], constructed = [OPENAI]\<rparr>\<rparr>"

text \<open>
  In \<open>scripted_runtime\<close> the model answers the first chat call with \<open>not json\<close>, the
  second with \<open>{bad}\<close> and every later one with a well-formed envelope holding one
  semantic memory; \<open>json.loads\<close> decodes the envelope and fails on the other two.
\<close>

definition semantic_X :: json where
  "semantic_X =
     JObject [(''type'', JString ''semantic''), (''text'', JString ''X''),
              (''topics'', JArray []), (''entities'', JArray [])]"

definition valid_memories_text :: string where
  "valid_memories_text =
     ''{\"memories\":[{\"type\":\"semantic\",\"text\":\"X\",\"topics\":[],\"entities\":[]}]}''"

definition scripted_runtime :: runtime where
  "scripted_runtime =
     undecodable_runtime
       \<lparr>json_loads := (\<lambda>s. if s = valid_memories_text
                            then Some (JObject [(''memories'', JArray [semantic_X])])
                            else None),
        openai_network := (\<lambda>n c req.
          Inr [ChoiceObject (Some (if n = 0 then ''not json''
                                   else if n = 1 then ''{bad}''
                                   else valid_memories_text))])\<rparr>"

definition hello_record :: MemoryRecord where
  "hello_record =
     \<lparr>id' = ''m1'', text = ''I prefer window seats'', memory_type = ''message'', topics = [],
      entities = [], discrete_memory_extracted = ''f''\<rparr>"

definition blank_record :: MemoryRecord where
  "blank_record =
     \<lparr>id' = ''m0'', text = [], memory_type = ''message'', topics = [],
      entities = [], discrete_memory_extracted = ''f''\<rparr>"

text \<open>A store of thirty eligible records behind an adapter that honours limit and offset.\<close>

definition thirty_records :: "MemoryRecord list" where
  "thirty_records = replicate 30 blank_record"

definition paging_runtime :: runtime where
  "paging_runtime =
     undecodable_runtime\<lparr>adapter_search := (\<lambda>offset. take 25 (drop offset thirty_records))\<rparr>"

text \<open>
  In \<open>misshapen_runtime\<close> the model answers every chat call with a JSON object whose
  \<open>memories\<close> is a string, which decodes and fails the shape validation.
\<close>

definition misshapen_runtime :: runtime where
  "misshapen_runtime =
     undecodable_runtime
       \<lparr>json_loads := (\<lambda>s. Some (JObject [(''memories'', JString ''nope'')])),
        openai_network := (\<lambda>n c req. Inr [ChoiceObject (Some ''{\"memories\": \"nope\"}'')])\<rparr>"

text \<open>
  A process whose generation model is an Anthropic model, with an Anthropic key in
  its environment; the model's answers are those of \<open>scripted_runtime\<close>.
\<close>

definition anthropic_settings :: Settings where
  "anthropic_settings = example_settings\<lparr>generation_model := ''claude-3-sonnet-20240229''\<rparr>"

definition anthropic_environ :: "string \<rightharpoonup> string" where
  "anthropic_environ = [''ANTHROPIC_API_KEY'' \<mapsto> ''test-key'']"

definition anthropic_scripted_runtime :: runtime where
  "anthropic_scripted_runtime =
     scripted_runtime
       \<lparr>os_environ := anthropic_environ, app_settings := anthropic_settings,
        openai_network := (\<lambda>n c req. Inl (ProviderError ''unused'')),
        anthropic_network := (\<lambda>n c req.
          Inr [Some (if n = 0 then ''not json''
                     else if n = 1 then ''{bad}''
                     else valid_memories_text)])\<rparr>"

definition anthropic_client :: client_obj where
  "anthropic_client =
     AnthropicClient 0
       \<lparr>anthropic_api_key = Some ''test-key'',
        client = Some \<lparr>anthropic_sdk_api_key = ''test-key''\<rparr>\<rparr>"

definition with_anthropic_client :: "extraction_state \<Rightarrow> extraction_state" where
  "with_anthropic_client st =
     st\<lparr>llms := \<lparr>model_clients = [ANTHROPIC \<mapsto> anthropic_client], constructed = [ANTHROPIC]\<rparr>\<rparr>"





section \<open>The model registry is total\<close>

text \<open>The keys of the table are pairwise different, as the keys of the dict are.\<close>

lemma MODEL_CONFIGS_keys_distinct: "distinct (map fst MODEL_CONFIGS)"
  by (simp add: MODEL_CONFIGS_def)

lemma default_present:
  "map_of MODEL_CONFIGS ''gpt-4o-mini'' = Some (mk_config OPENAI ''gpt-4o-mini'' 128000 1536)"
  by (simp add: MODEL_CONFIGS_def)

lemma get_model_config_present:
  "map_of MODEL_CONFIGS model_name = Some c \<Longrightarrow> get_model_config model_name = Inr c"
  by (simp add: get_model_config_def dict_contains_def dict_getitem_def)

lemma get_model_config_absent:
  "map_of MODEL_CONFIGS model_name = None \<Longrightarrow>
   get_model_config model_name = Inr (mk_config OPENAI ''gpt-4o-mini'' 128000 1536)"
  by (simp add: get_model_config_def dict_contains_def dict_getitem_def default_present)

lemma get_model_config_gpt4o:
  "get_model_config ''gpt-4o'' = Inr (mk_config OPENAI ''gpt-4o'' 128000 1536)"
  by (rule get_model_config_present) (simp add: MODEL_CONFIGS_def)

lemma get_model_config_sonnet:
  "get_model_config ''claude-3-sonnet-20240229''
     = Inr (mk_config ANTHROPIC ''claude-3-sonnet-20240229'' 200000 1536)"
  by (rule get_model_config_present) (simp add: MODEL_CONFIGS_def)

text \<open>
  C8.  Resolving a model name never raises.  A name that is not a key of the static
  table resolves to the config of the default model \<open>gpt-4o-mini\<close>; a name that is a
  key resolves to exactly the table's config.  In particular \<open>gpt-4o\<close> resolves to
  the OpenAI provider with 128000 tokens and \<open>claude-3-sonnet-20240229\<close> to the
  Anthropic provider with 200000 tokens.
\<close>

theorem get_model_config_total:
  "(\<exists>c. get_model_config model_name = Inr c)
   \<and> (map_of MODEL_CONFIGS model_name = None \<longrightarrow>
        get_model_config model_name = Inr (mk_config OPENAI ''gpt-4o-mini'' 128000 1536))
   \<and> (\<forall>c. map_of MODEL_CONFIGS model_name = Some c \<longrightarrow> get_model_config model_name = Inr c)
   \<and> (\<exists>c. get_model_config ''gpt-4o'' = Inr c \<and> provider c = OPENAI \<and> max_tokens c = 128000)
   \<and> (\<exists>c. get_model_config ''claude-3-sonnet-20240229'' = Inr c
          \<and> provider c = ANTHROPIC \<and> max_tokens c = 200000)"
proof -
  have total: "\<exists>c. get_model_config model_name = Inr c"
    by (cases "map_of MODEL_CONFIGS model_name")
       (auto dest: get_model_config_absent get_model_config_present)
  have a: "\<exists>c. get_model_config ''gpt-4o'' = Inr c \<and> provider c = OPENAI \<and> max_tokens c = 128000"
    by (simp add: get_model_config_gpt4o mk_config_def)
  have b: "\<exists>c. get_model_config ''claude-3-sonnet-20240229'' = Inr c
          \<and> provider c = ANTHROPIC \<and> max_tokens c = 200000"
    by (simp add: get_model_config_sonnet mk_config_def)
  from total a b show ?thesis
    by (simp add: get_model_config_absent get_model_config_present)
qed

theorem get_model_config_total_witness:
  "map_of MODEL_CONFIGS ''nonexistent-model'' = None
   \<and> get_model_config ''nonexistent-model'' = Inr (mk_config OPENAI ''gpt-4o-mini'' 128000 1536)
   \<and> map_of MODEL_CONFIGS ''o1'' = Some (mk_config OPENAI ''o1'' 200000 1536)
   \<and> get_model_config ''o1'' = Inr (mk_config OPENAI ''o1'' 200000 1536)"
proof -
  have n: "map_of MODEL_CONFIGS ''nonexistent-model'' = None"
    by (simp add: MODEL_CONFIGS_def)
  have p: "map_of MODEL_CONFIGS ''o1'' = Some (mk_config OPENAI ''o1'' 200000 1536)"
    by (simp add: MODEL_CONFIGS_def)
  show ?thesis
    using n p get_model_config_total [of "''nonexistent-model''"]
      get_model_config_total [of "''o1''"]
    by simp
qed

section \<open>The OpenAI wrapper without a base URL\<close>

lemma init_no_base:
  assumes k: "truthy (py_or api_key_arg (environ ''OPENAI_API_KEY''))"
      and b: "\<not> truthy base_url_arg" "\<not> truthy (environ ''OPENAI_API_BASE'')"
  shows "OpenAIClientWrapper_init have_openai environ api_key_arg base_url_arg =
           (if have_openai
            then Inr \<lparr>api_key = py_or api_key_arg (environ ''OPENAI_API_KEY''),
                      base_url = py_or base_url_arg (environ ''OPENAI_API_BASE''),
                      completion_client = None, embedding_client = None\<rparr>
            else Inl TypeError)"
proof -
  from b have nb: "\<not> truthy (py_or base_url_arg (environ ''OPENAI_API_BASE''))"
    by (simp add: py_or_def)
  show ?thesis
    using k nb by (simp add: OpenAIClientWrapper_init_def new_AsyncOpenAI_def Let_def)
qed

text \<open>
  C2.  Let a non-empty API key be supplied (as the argument or through
  \<open>OPENAI_API_KEY\<close>) and no base URL (the argument and \<open>OPENAI_API_BASE\<close> both absent
  or empty).  Then the constructor, which returns whenever the \<open>openai\<close> package was
  importable, leaves the completion client and the embedding client at \<open>None\<close>, and
  on every instance it returns both \<open>create_chat_completion\<close> and \<open>create_embedding\<close>
  raise \<open>ValueError\<close> with the message that the API key is not configured, whatever
  the request and whatever the network would have answered.
\<close>

theorem openai_key_without_base_url_unconfigured:
  assumes k: "truthy (py_or api_key_arg (environ ''OPENAI_API_KEY''))"
      and b: "\<not> truthy base_url_arg" "\<not> truthy (environ ''OPENAI_API_BASE'')"
  shows "(have_openai \<longrightarrow>
            (\<exists>w. OpenAIClientWrapper_init have_openai environ api_key_arg base_url_arg = Inr w))
     \<and> (\<forall>w. OpenAIClientWrapper_init have_openai environ api_key_arg base_url_arg = Inr w \<longrightarrow>
            completion_client w = None \<and> embedding_client w = None
          \<and> (\<forall>openai_sdk n req. OpenAI_create_chat_completion openai_sdk n w req
                 = Inl (ValueError ''OpenAI API key is not configured''))
          \<and> (\<forall>embed_sdk query_vec. OpenAI_create_embedding embed_sdk w query_vec
                 = (Inl (ValueError ''OpenAI API key is not configured'') :: exn + 'f list list)))"
  using init_no_base [OF k b, of have_openai]
  by (auto simp: OpenAI_create_chat_completion_def OpenAI_create_embedding_def split: if_splits)

theorem openai_key_without_base_url_unconfigured_witness:
  "truthy (py_or (Some ''sk-test'') (Map.empty ''OPENAI_API_KEY''))
   \<and> \<not> truthy None \<and> \<not> truthy (Map.empty ''OPENAI_API_BASE'')
   \<and> OpenAIClientWrapper_init True Map.empty (Some ''sk-test'') None
        = Inr \<lparr>api_key = Some ''sk-test'', base_url = None,
               completion_client = None, embedding_client = None\<rparr>
   \<and> OpenAI_create_chat_completion (\<lambda>n c r. Inr [ChoiceObject (Some ''{}'')]) 0
        \<lparr>api_key = Some ''sk-test'', base_url = None,
          completion_client = None, embedding_client = None\<rparr>
        \<lparr>req_model = ''gpt-4o'', req_prompt = TopicsPrompt 3 ''hello'', req_json_object = True\<rparr>
        = Inl (ValueError ''OpenAI API key is not configured'')
   \<and> OpenAI_create_embedding (\<lambda>c q. Inr [[1::int]])
        \<lparr>api_key = Some ''sk-test'', base_url = None,
          completion_client = None, embedding_client = None\<rparr> [''hello'']
        = Inl (ValueError ''OpenAI API key is not configured'')"
proof -
  have k: "truthy (py_or (Some ''sk-test'') (Map.empty ''OPENAI_API_KEY''))"
    by (simp add: truthy_def py_or_def)
  have b: "\<not> truthy None" "\<not> truthy (Map.empty ''OPENAI_API_BASE'')"
    by (simp_all add: truthy_def)
  have i: "OpenAIClientWrapper_init True Map.empty (Some ''sk-test'') None
        = Inr \<lparr>api_key = Some ''sk-test'', base_url = None,
               completion_client = None, embedding_client = None\<rparr>"
    by (simp add: OpenAIClientWrapper_init_def new_AsyncOpenAI_def truthy_def py_or_def)
  show ?thesis
    using k b i openai_key_without_base_url_unconfigured [OF k b, of True, where ?'f = int]
    by simp
qed

section \<open>The client cache builds each provider's client once\<close>

lemma get_model_client_hit:
  "get_model_client ho ha environ p s = Inr (c, s') \<Longrightarrow>
   \<exists>e. ModelProvider_of p = Inr e \<and> model_clients s' e = Some c"
  by (auto simp: get_model_client_def split: sum.splits option.splits)

lemma get_model_client_again:
  "get_model_client ho ha environ p s = Inr (c, s') \<Longrightarrow>
   get_model_client ho2 ha2 environ2 p s' = Inr (c, s')"
  by (drule get_model_client_hit) (auto simp: get_model_client_def)

lemma built_once_step:
  "built_once s \<Longrightarrow> get_model_client ho ha environ p s = Inr (c, s') \<Longrightarrow> built_once s'"
  by (auto simp: get_model_client_def built_once_def split: sum.splits option.splits)

lemma built_once_run: "built_once s \<Longrightarrow> built_once (run_calls ho ha cs s)"
proof (induction cs arbitrary: s)
  case Nil
  then show ?case by simp
next
  case (Cons a cs)
  obtain environ p where a: "a = (environ, p)" by (cases a)
  show ?case
  proof (cases "get_model_client ho ha environ p s")
    case (Inl e)
    with Cons a show ?thesis by simp
  next
    case (Inr r)
    obtain c s' where r: "r = (c, s')" by (cases r)
    from Inr r Cons.prems have "built_once s'" by (auto dest: built_once_step)
    with Cons.IH Inr r a show ?thesis by simp
  qed
qed

lemma distinct_count_le_1: "distinct xs \<Longrightarrow> count_list xs q \<le> 1"
  by (induction xs) (auto simp: count_list_0_iff)

text \<open>
  C6.  When a call of \<open>get_model_client\<close> for a provider returns a client, the next
  call for that provider returns the identical client object and leaves the module
  state as it is, so it builds nothing (whatever the environment is by then).  And in
  any sequence of calls from the start of the process, each provider's client is built
  at most once.
\<close>

theorem get_model_client_cached:
  "(\<forall>c s'. get_model_client ho ha environ p s = Inr (c, s') \<longrightarrow>
            get_model_client ho2 ha2 environ2 p s' = Inr (c, s'))
   \<and> count_list (constructed (run_calls ho ha calls initial_llms_state)) q \<le> 1"
proof -
  have "built_once initial_llms_state"
    by (simp add: built_once_def initial_llms_state_def)
  then have "distinct (constructed (run_calls ho ha calls initial_llms_state))"
    using built_once_run built_once_def by blast
  then have "count_list (constructed (run_calls ho ha calls initial_llms_state)) q \<le> 1"
    by (rule distinct_count_le_1)
  then show ?thesis
    by (auto dest: get_model_client_again)
qed

theorem get_model_client_cached_witness:
  "get_model_client True True [''OPENAI_API_KEY'' \<mapsto> ''test-key''] (ByEnum OPENAI)
      initial_llms_state
     = Inr (OpenAIClient 0 \<lparr>api_key = Some ''test-key'', base_url = None,
                            completion_client = None, embedding_client = None\<rparr>,
            \<lparr>model_clients = [OPENAI \<mapsto> OpenAIClient 0
                 \<lparr>api_key = Some ''test-key'', base_url = None,
                  completion_client = None, embedding_client = None\<rparr>],
             constructed = [OPENAI]\<rparr>)
   \<and> get_model_client True True Map.empty (ByEnum OPENAI)
        \<lparr>model_clients = [OPENAI \<mapsto> OpenAIClient 0
            \<lparr>api_key = Some ''test-key'', base_url = None,
             completion_client = None, embedding_client = None\<rparr>],
         constructed = [OPENAI]\<rparr>
     = Inr (OpenAIClient 0 \<lparr>api_key = Some ''test-key'', base_url = None,
                            completion_client = None, embedding_client = None\<rparr>,
            \<lparr>model_clients = [OPENAI \<mapsto> OpenAIClient 0
                 \<lparr>api_key = Some ''test-key'', base_url = None,
                  completion_client = None, embedding_client = None\<rparr>],
             constructed = [OPENAI]\<rparr>)"
proof -
  have first: "get_model_client True True [''OPENAI_API_KEY'' \<mapsto> ''test-key''] (ByEnum OPENAI)
      initial_llms_state
     = Inr (OpenAIClient 0 \<lparr>api_key = Some ''test-key'', base_url = None,
                            completion_client = None, embedding_client = None\<rparr>,
            \<lparr>model_clients = [OPENAI \<mapsto> OpenAIClient 0
                 \<lparr>api_key = Some ''test-key'', base_url = None,
                  completion_client = None, embedding_client = None\<rparr>],
             constructed = [OPENAI]\<rparr>)"
    by (simp add: get_model_client_def ModelProvider_of_def construct_client_def
        initial_llms_state_def OpenAIClientWrapper_init_def new_AsyncOpenAI_def
        truthy_def py_or_def)
  from first show ?thesis
    using get_model_client_cached [of True True "[''OPENAI_API_KEY'' \<mapsto> ''test-key'']"
        "ByEnum OPENAI" initial_llms_state True True Map.empty "[]" OPENAI]
    by simp
qed

section \<open>The statistical topic strategy caches by text and count\<close>

lemma bertopic_returns:
  assumes "extract_topics_bertopic load transform get_topic settings t num s = Inr (found, s1)"
  shows "bertopic_cache s1 (t, effective_num_topics settings num) = Some found"
    and "bertopic_cache s (t, effective_num_topics settings num) = None \<Longrightarrow>
           transformed s1 = transformed s @ [t]
           \<and> bertopic_cache s1 = (bertopic_cache s)((t, effective_num_topics settings num) \<mapsto> found)"
  using assms
  by (auto simp: extract_topics_bertopic_def get_topic_model_def Let_def
      split: option.splits sum.splits if_splits)

lemma bertopic_hit:
  "bertopic_cache s (t, effective_num_topics settings num) = Some found \<Longrightarrow>
   extract_topics_bertopic load transform get_topic settings t num s = Inr (found, s)"
  by (simp add: extract_topics_bertopic_def Let_def)

text \<open>
  C7.  Let a call of the statistical topic extraction return, on a pair of text and
  count that was not in the cache.  Then a second call with the same text and count
  returns the same topics and leaves the state as it is (a cache hit, whatever the
  model would answer now), so that the two calls have invoked \<open>model.transform\<close>
  exactly once.  A further call that returns and differs only in the count in force
  (not cached before either) invokes the model again: two invocations for the two
  counts, and both pairs are then separate entries of the cache.
\<close>

theorem extract_topics_bertopic_cached:
  assumes first: "extract_topics_bertopic load transform get_topic settings text' num_topics s
                    = Inr (found, s1)"
      and miss: "bertopic_cache s (text', effective_num_topics settings num_topics) = None"
  shows "extract_topics_bertopic load2 transform2 get_topic2 settings text' num_topics s1
           = Inr (found, s1)
     \<and> transformed s1 = transformed s @ [text']
     \<and> (\<forall>num_topics2 topics2 s2.
           effective_num_topics settings num_topics2 \<noteq> effective_num_topics settings num_topics
           \<and> bertopic_cache s (text', effective_num_topics settings num_topics2) = None
           \<and> extract_topics_bertopic load2 transform2 get_topic2 settings text' num_topics2 s1
                = Inr (topics2, s2)
           \<longrightarrow> transformed s2 = transformed s @ [text', text']
               \<and> bertopic_cache s2 (text', effective_num_topics settings num_topics) = Some found
               \<and> bertopic_cache s2 (text', effective_num_topics settings num_topics2) = Some topics2)"
proof (intro conjI allI impI)
  show "extract_topics_bertopic load2 transform2 get_topic2 settings text' num_topics s1
          = Inr (found, s1)"
    using bertopic_returns(1) [OF first] by (rule bertopic_hit)
  from bertopic_returns(2) [OF first miss]
  have s1: "transformed s1 = transformed s @ [text']"
    "bertopic_cache s1
       = (bertopic_cache s)((text', effective_num_topics settings num_topics) \<mapsto> found)"
    by simp_all
  show "transformed s1 = transformed s @ [text']" by (rule s1(1))
  fix num_topics2 topics2 s2
  assume a: "effective_num_topics settings num_topics2 \<noteq> effective_num_topics settings num_topics
           \<and> bertopic_cache s (text', effective_num_topics settings num_topics2) = None
           \<and> extract_topics_bertopic load2 transform2 get_topic2 settings text' num_topics2 s1
                = Inr (topics2, s2)"
  then have second: "extract_topics_bertopic load2 transform2 get_topic2 settings text' num_topics2 s1
                = Inr (topics2, s2)" by simp
  from a s1 have m: "bertopic_cache s1 (text', effective_num_topics settings num_topics2) = None"
    by simp
  from bertopic_returns(2) [OF second m] s1 a
  show "transformed s2 = transformed s @ [text', text']"
    and "bertopic_cache s2 (text', effective_num_topics settings num_topics) = Some found"
    by simp_all
  from bertopic_returns(1) [OF second]
  show "bertopic_cache s2 (text', effective_num_topics settings num_topics2) = Some topics2" .
qed

theorem extract_topics_bertopic_cached_witness:
  "extract_topics_bertopic None (\<lambda>n t. Inr [1]) (\<lambda>i. [(''technology'', 4 / 5)])
        \<lparr>generation_model = ''gpt-4o-mini'', topic_model = ''gpt-4o-mini'', top_k_topics = 3\<rparr>
        ''Testing caching'' (Some 2)
        \<lparr>bertopic_cache = Map.empty, topic_model_loaded = False, transformed = []\<rparr>
      = Inr ([''technology''],
         \<lparr>bertopic_cache = [(''Testing caching'', 2) \<mapsto> [''technology'']],
          topic_model_loaded = True, transformed = [''Testing caching'']\<rparr>)
   \<and> extract_topics_bertopic (Some (ProviderError ''no model'')) (\<lambda>n t. Inr [1])
        (\<lambda>i. [(''technology'', 4 / 5)])
        \<lparr>generation_model = ''gpt-4o-mini'', topic_model = ''gpt-4o-mini'', top_k_topics = 3\<rparr>
        ''Testing caching'' (Some 2)
        \<lparr>bertopic_cache = [(''Testing caching'', 2) \<mapsto> [''technology'']],
          topic_model_loaded = True, transformed = [''Testing caching'']\<rparr>
      = Inr ([''technology''],
         \<lparr>bertopic_cache = [(''Testing caching'', 2) \<mapsto> [''technology'']],
          topic_model_loaded = True, transformed = [''Testing caching'']\<rparr>)
   \<and> extract_topics_bertopic (Some (ProviderError ''no model'')) (\<lambda>n t. Inr [1])
        (\<lambda>i. [(''technology'', 4 / 5)])
        \<lparr>generation_model = ''gpt-4o-mini'', topic_model = ''gpt-4o-mini'', top_k_topics = 3\<rparr>
        ''Testing caching'' (Some 3)
        \<lparr>bertopic_cache = [(''Testing caching'', 2) \<mapsto> [''technology'']],
          topic_model_loaded = True, transformed = [''Testing caching'']\<rparr>
      = Inr ([''technology''],
         \<lparr>bertopic_cache = [(''Testing caching'', 2) \<mapsto> [''technology''],
                            (''Testing caching'', 3) \<mapsto> [''technology'']],
          topic_model_loaded = True, transformed = [''Testing caching'', ''Testing caching'']\<rparr>)"
proof -
  let ?cfg = "\<lparr>generation_model = ''gpt-4o-mini'', topic_model = ''gpt-4o-mini'', top_k_topics = 3\<rparr>"
  let ?s = "\<lparr>bertopic_cache = Map.empty, topic_model_loaded = False, transformed = []\<rparr>"
  let ?s1 = "\<lparr>bertopic_cache = [(''Testing caching'', 2) \<mapsto> [''technology'']],
          topic_model_loaded = True, transformed = [''Testing caching'']\<rparr>"
  have first: "extract_topics_bertopic None (\<lambda>n t. Inr [1]) (\<lambda>i. [(''technology'', 4 / 5)])
        ?cfg ''Testing caching'' (Some 2) ?s = Inr ([''technology''], ?s1)"
    by (simp add: extract_topics_bertopic_def get_topic_model_def effective_num_topics_def Let_def)
  have miss: "bertopic_cache ?s (''Testing caching'', effective_num_topics ?cfg (Some 2)) = None"
    by simp
  have other: "extract_topics_bertopic (Some (ProviderError ''no model'')) (\<lambda>n t. Inr [1])
        (\<lambda>i. [(''technology'', 4 / 5)]) ?cfg ''Testing caching'' (Some 3) ?s1
      = Inr ([''technology''],
         \<lparr>bertopic_cache = [(''Testing caching'', 2) \<mapsto> [''technology''],
                            (''Testing caching'', 3) \<mapsto> [''technology'']],
          topic_model_loaded = True, transformed = [''Testing caching'', ''Testing caching'']\<rparr>)"
    by (simp add: extract_topics_bertopic_def get_topic_model_def effective_num_topics_def Let_def)
  show ?thesis
    using first other extract_topics_bertopic_cached [OF first miss,
        of "Some (ProviderError ''no model'')" "\<lambda>n t. Inr [1]" "\<lambda>i. [(''technology'', 4 / 5)]"]
    by simp
qed

section \<open>Entity extraction groups word pieces, deduplicates and raises only on an unencodable text\<close>



















section \<open>Facts about the retry loop and the concrete runs\<close>

lemma AsyncRetrying_3:
  "AsyncRetrying 3 body s =
     (case body s of
        (Inr v, s1) \<Rightarrow> (Inr v, s1)
      | (Inl e1, s1) \<Rightarrow>
         (case body s1 of
            (Inr v, s2) \<Rightarrow> (Inr v, s2)
          | (Inl e2, s2) \<Rightarrow>
             (case body s2 of
                (Inr v, s3) \<Rightarrow> (Inr v, s3)
              | (Inl e3, s3) \<Rightarrow> (Inl (RetryError e3), s3))))"
  by (simp add: AsyncRetrying_def split: prod.splits sum.splits)

lemma after_chats_0 [simp]: "after_chats req 0 st = st"
  by (simp add: after_chats_def)

lemma after_chats_Suc:
  "after_chats req (Suc k) st =
     (after_chats req k st)\<lparr>chat_calls := Suc (chat_calls (after_chats req k st)),
        trace := trace (after_chats req k st) @ [ChatCompletion req]\<rparr>"
  by (simp add: after_chats_def replicate_append_same)

lemma chat_calls_after_chats [simp]: "chat_calls (after_chats req k st) = chat_calls st + k"
  by (simp add: after_chats_def)

lemma topics_attempt_eq:
  "topics_attempt rt c (topics_request rt t num_topics)
      (effective_num_topics (app_settings rt) num_topics) (after_chats req' k st) =
     (topics_outcome rt c t num_topics (chat_calls st + k),
      (after_chats req' k st)\<lparr>chat_calls := Suc (chat_calls (after_chats req' k st)),
        trace := trace (after_chats req' k st) @ [ChatCompletion (topics_request rt t num_topics)]\<rparr>)"
  by (simp add: topics_attempt_def create_chat_completion_def topics_outcome_def)

lemma topics_of_answer_caught:
  assumes "choices resp = ChoiceObject (Some s) # others"
      and "loads s = None \<or> (\<exists>d. loads s = Some (JObject d) \<and> map_of d ''topics'' = None)"
  shows "topics_of_answer loads num (Inr resp) = Inr (JArray [])"
  using assms
  by (auto simp: topics_of_answer_def topics_try_def message_content_def py_json_loads_def
      json_getitem_def dict_getitem_def topics_except_def json_truthy_def)

lemma extract_topics_llm_unrolled:
  assumes "topics_client rt client_arg st = Inr (c, st1)"
  shows "extract_topics_llm rt t num_topics client_arg st =
     (let req = topics_request rt t num_topics; n = chat_calls st1 in
      case topics_outcome rt c t num_topics n of
        Inr v \<Rightarrow> (Inr v, after_chats req 1 st1)
      | Inl e1 \<Rightarrow>
         (case topics_outcome rt c t num_topics (n + 1) of
            Inr v \<Rightarrow> (Inr v, after_chats req 2 st1)
          | Inl e2 \<Rightarrow>
             (case topics_outcome rt c t num_topics (n + 2) of
                Inr v \<Rightarrow> (Inr v, after_chats req 3 st1)
              | Inl e3 \<Rightarrow> (Inl (RetryError e3), after_chats req 3 st1))))"
proof -
  let ?req = "topics_request rt t num_topics"
  have a0: "st1 = after_chats ?req 0 st1" by simp
  have s1: "(after_chats ?req 0 st1)\<lparr>chat_calls := Suc (chat_calls (after_chats ?req 0 st1)),
        trace := trace (after_chats ?req 0 st1) @ [ChatCompletion ?req]\<rparr> = after_chats ?req 1 st1"
    by (simp add: after_chats_def)
  have s2: "(after_chats ?req 1 st1)\<lparr>chat_calls := Suc (chat_calls (after_chats ?req 1 st1)),
        trace := trace (after_chats ?req 1 st1) @ [ChatCompletion ?req]\<rparr> = after_chats ?req 2 st1"
    by (simp add: after_chats_def numeral_2_eq_2)
  have s3: "(after_chats ?req 2 st1)\<lparr>chat_calls := Suc (chat_calls (after_chats ?req 2 st1)),
        trace := trace (after_chats ?req 2 st1) @ [ChatCompletion ?req]\<rparr> = after_chats ?req 3 st1"
    by (simp add: after_chats_def numeral_2_eq_2 numeral_3_eq_3)
  have b0: "topics_attempt rt c ?req (effective_num_topics (app_settings rt) num_topics) st1
       = (topics_outcome rt c t num_topics (chat_calls st1), after_chats ?req 1 st1)"
    using topics_attempt_eq [of rt c t num_topics ?req 0 st1] by (simp only: s1) simp
  have b1: "topics_attempt rt c ?req (effective_num_topics (app_settings rt) num_topics)
         (after_chats ?req 1 st1)
       = (topics_outcome rt c t num_topics (chat_calls st1 + 1), after_chats ?req 2 st1)"
    using topics_attempt_eq [of rt c t num_topics ?req 1 st1] by (simp only: s2)
  have b2: "topics_attempt rt c ?req (effective_num_topics (app_settings rt) num_topics)
         (after_chats ?req 2 st1)
       = (topics_outcome rt c t num_topics (chat_calls st1 + 2), after_chats ?req 3 st1)"
    using topics_attempt_eq [of rt c t num_topics ?req 2 st1] by (simp only: s3)
  show ?thesis
    by (cases "topics_outcome rt c t num_topics (chat_calls st1)";
        cases "topics_outcome rt c t num_topics (chat_calls st1 + 1)";
        cases "topics_outcome rt c t num_topics (chat_calls st1 + 2)")
       (simp_all only: extract_topics_llm_def AsyncRetrying_3 Let_def assms b0 b1 b2
          sum.case prod.case)
qed

lemmas example_defs = undecodable_runtime_def failing_runtime_def example_settings_def
  example_environ_def fresh_state_def example_client_def with_client_def

lemmas client_defs = get_model_config_def dict_contains_def dict_getitem_def
  MODEL_CONFIGS_def mk_config_def get_model_client_def ModelProvider_of_def construct_client_def
  OpenAIClientWrapper_init_def new_AsyncOpenAI_def truthy_def py_or_def initial_llms_state_def
  Let_def

lemma example_topics_client:
  "topics_client undecodable_runtime None fresh_state = Inr (example_client, with_client fresh_state)"
  "topics_client failing_runtime None fresh_state = Inr (example_client, with_client fresh_state)"
  by (simp_all add: topics_client_def example_defs client_defs)

section \<open>The LLM topic strategy retries raising attempts only\<close>

text \<open>
  C1 as stated fails: in \<open>undecodable_runtime\<close> the model's answer is not JSON, and the
  call returns the empty list after a single chat call instead of retrying and
  raising.
\<close>

theorem extract_topics_llm_undecodable_counterexample:
  "chat_answer undecodable_runtime example_client 0
       (topics_request undecodable_runtime ''some text'' None)
     = Inr \<lparr>choices = [ChoiceObject (Some ''not json'')]\<rparr>
   \<and> json_loads undecodable_runtime ''not json'' = None
   \<and> fst (extract_topics_llm undecodable_runtime ''some text'' None None fresh_state)
       = Inr (JArray [])
   \<and> chat_calls (snd (extract_topics_llm undecodable_runtime ''some text'' None None fresh_state))
       = 1"
  unfolding extract_topics_llm_unrolled [OF example_topics_client(1)]
  by (simp add: topics_outcome_def chat_answer_def topics_request_def
      OpenAI_create_chat_completion_def topics_of_answer_def topics_try_def message_content_def
      py_json_loads_def topics_except_def json_truthy_def after_chats_def
      example_defs)

text \<open>
  C1, amended.  Let a client be available to \<open>extract_topics_llm\<close>, and let the
  response's first choice be an SDK object that carries a string as its
  \<open>message.content\<close>, which is what the OpenAI wrapper returns.  A JSON-decode
  failure or a missing \<open>topics\<close> field in that content is caught inside the attempt
  and causes no retry: the call returns the empty list after that one chat call.
  Only an attempt that raises is retried (a failing chat call makes its attempt
  raise), with a fixed limit of 3 attempts: the first attempt that does not raise
  gives the result, and if all 3 attempts raise, tenacity's \<open>RetryError\<close> carrying
  the final attempt's exception propagates to the caller.
\<close>

theorem extract_topics_llm_retries_raising_attempts_only:
  assumes client: "topics_client rt client_arg st = Inr (c, st1)"
  shows "(\<forall>resp s others.
            chat_answer rt c (chat_calls st1) (topics_request rt t num_topics) = Inr resp
            \<and> choices resp = ChoiceObject (Some s) # others
            \<and> (json_loads rt s = None
                \<or> (\<exists>d. json_loads rt s = Some (JObject d) \<and> map_of d ''topics'' = None))
          \<longrightarrow> extract_topics_llm rt t num_topics client_arg st
                = (Inr (JArray []), after_chats (topics_request rt t num_topics) 1 st1))
     \<and> (\<forall>v. topics_outcome rt c t num_topics (chat_calls st1) = Inr v
          \<longrightarrow> extract_topics_llm rt t num_topics client_arg st
                = (Inr v, after_chats (topics_request rt t num_topics) 1 st1))
     \<and> (\<forall>e1 v. topics_outcome rt c t num_topics (chat_calls st1) = Inl e1
            \<and> topics_outcome rt c t num_topics (chat_calls st1 + 1) = Inr v
          \<longrightarrow> extract_topics_llm rt t num_topics client_arg st
                = (Inr v, after_chats (topics_request rt t num_topics) 2 st1))
     \<and> (\<forall>e1 e2 v. topics_outcome rt c t num_topics (chat_calls st1) = Inl e1
            \<and> topics_outcome rt c t num_topics (chat_calls st1 + 1) = Inl e2
            \<and> topics_outcome rt c t num_topics (chat_calls st1 + 2) = Inr v
          \<longrightarrow> extract_topics_llm rt t num_topics client_arg st
                = (Inr v, after_chats (topics_request rt t num_topics) 3 st1))
     \<and> (\<forall>e1 e2 e3. topics_outcome rt c t num_topics (chat_calls st1) = Inl e1
            \<and> topics_outcome rt c t num_topics (chat_calls st1 + 1) = Inl e2
            \<and> topics_outcome rt c t num_topics (chat_calls st1 + 2) = Inl e3
          \<longrightarrow> extract_topics_llm rt t num_topics client_arg st
                = (Inl (RetryError e3), after_chats (topics_request rt t num_topics) 3 st1))
     \<and> (\<forall>n e. chat_answer rt c n (topics_request rt t num_topics) = Inl e
          \<longrightarrow> topics_outcome rt c t num_topics n = Inl e)"
proof -
  note u = extract_topics_llm_unrolled [OF client, of t num_topics]
  have caught: "\<forall>resp s others.
            chat_answer rt c (chat_calls st1) (topics_request rt t num_topics) = Inr resp
            \<and> choices resp = ChoiceObject (Some s) # others
            \<and> (json_loads rt s = None
                \<or> (\<exists>d. json_loads rt s = Some (JObject d) \<and> map_of d ''topics'' = None))
          \<longrightarrow> topics_outcome rt c t num_topics (chat_calls st1) = Inr (JArray [])"
    by (auto simp: topics_outcome_def intro!: topics_of_answer_caught)
  have one: "\<forall>v. topics_outcome rt c t num_topics (chat_calls st1) = Inr v
          \<longrightarrow> extract_topics_llm rt t num_topics client_arg st
                = (Inr v, after_chats (topics_request rt t num_topics) 1 st1)"
    by (simp add: u Let_def)
  have two: "\<forall>e1 v. topics_outcome rt c t num_topics (chat_calls st1) = Inl e1
            \<and> topics_outcome rt c t num_topics (chat_calls st1 + 1) = Inr v
          \<longrightarrow> extract_topics_llm rt t num_topics client_arg st
                = (Inr v, after_chats (topics_request rt t num_topics) 2 st1)"
    by (simp add: u Let_def)
  have three: "\<forall>e1 e2 v. topics_outcome rt c t num_topics (chat_calls st1) = Inl e1
            \<and> topics_outcome rt c t num_topics (chat_calls st1 + 1) = Inl e2
            \<and> topics_outcome rt c t num_topics (chat_calls st1 + 2) = Inr v
          \<longrightarrow> extract_topics_llm rt t num_topics client_arg st
                = (Inr v, after_chats (topics_request rt t num_topics) 3 st1)"
    by (simp add: u Let_def)
  have exhausted: "\<forall>e1 e2 e3. topics_outcome rt c t num_topics (chat_calls st1) = Inl e1
            \<and> topics_outcome rt c t num_topics (chat_calls st1 + 1) = Inl e2
            \<and> topics_outcome rt c t num_topics (chat_calls st1 + 2) = Inl e3
          \<longrightarrow> extract_topics_llm rt t num_topics client_arg st
                = (Inl (RetryError e3), after_chats (topics_request rt t num_topics) 3 st1)"
    by (simp add: u Let_def)
  have raises: "\<forall>n e. chat_answer rt c n (topics_request rt t num_topics) = Inl e
          \<longrightarrow> topics_outcome rt c t num_topics n = Inl e"
    by (simp add: topics_outcome_def topics_of_answer_def)
  from caught one
  have zero: "\<forall>resp s others.
            chat_answer rt c (chat_calls st1) (topics_request rt t num_topics) = Inr resp
            \<and> choices resp = ChoiceObject (Some s) # others
            \<and> (json_loads rt s = None
                \<or> (\<exists>d. json_loads rt s = Some (JObject d) \<and> map_of d ''topics'' = None))
          \<longrightarrow> extract_topics_llm rt t num_topics client_arg st
                = (Inr (JArray []), after_chats (topics_request rt t num_topics) 1 st1)"
    by blast
  from zero one two three exhausted raises show ?thesis by (intro conjI)
qed

theorem extract_topics_llm_retries_raising_attempts_only_witness:
  "topics_client undecodable_runtime None fresh_state = Inr (example_client, with_client fresh_state)
   \<and> chat_answer undecodable_runtime example_client (chat_calls (with_client fresh_state))
        (topics_request undecodable_runtime ''some text'' None)
       = Inr \<lparr>choices = [ChoiceObject (Some ''not json'')]\<rparr>
   \<and> json_loads undecodable_runtime ''not json'' = None
   \<and> extract_topics_llm undecodable_runtime ''some text'' None None fresh_state
       = (Inr (JArray []),
          after_chats (topics_request undecodable_runtime ''some text'' None) 1
            (with_client fresh_state))
   \<and> topics_client failing_runtime None fresh_state = Inr (example_client, with_client fresh_state)
   \<and> chat_answer failing_runtime example_client (chat_calls (with_client fresh_state))
        (topics_request failing_runtime ''some text'' None)
       = Inl (ProviderError ''connection refused'')
   \<and> extract_topics_llm failing_runtime ''some text'' None None fresh_state
       = (Inl (RetryError (ProviderError ''connection refused'')),
          after_chats (topics_request failing_runtime ''some text'' None) 3
            (with_client fresh_state))"
proof -
  let ?resp = "\<lparr>choices = [ChoiceObject (Some ''not json'')]\<rparr>"
  have a: "chat_answer undecodable_runtime example_client (chat_calls (with_client fresh_state))
             (topics_request undecodable_runtime ''some text'' None) = Inr ?resp"
    by (simp add: chat_answer_def OpenAI_create_chat_completion_def example_defs)
  have sh: "choices ?resp = ChoiceObject (Some ''not json'') # []" by simp
  have l: "json_loads undecodable_runtime ''not json'' = None"
    by (simp add: example_defs)
  have f: "chat_answer failing_runtime example_client n
             (topics_request failing_runtime ''some text'' None)
           = Inl (ProviderError ''connection refused'')" for n
    by (simp add: chat_answer_def OpenAI_create_chat_completion_def example_defs)
  note t1 = extract_topics_llm_retries_raising_attempts_only [OF example_topics_client(1),
      of "''some text''" None]
  note t2 = extract_topics_llm_retries_raising_attempts_only [OF example_topics_client(2),
      of "''some text''" None]
  from t1 [THEN conjunct1] a sh l
  have r1: "extract_topics_llm undecodable_runtime ''some text'' None None fresh_state
       = (Inr (JArray []),
          after_chats (topics_request undecodable_runtime ''some text'' None) 1
            (with_client fresh_state))"
    by blast
  from t2 [THEN conjunct2, THEN conjunct2, THEN conjunct2, THEN conjunct2, THEN conjunct2] f
  have o: "topics_outcome failing_runtime example_client ''some text'' None n
             = Inl (ProviderError ''connection refused'')" for n
    by blast
  from t2 [THEN conjunct2, THEN conjunct2, THEN conjunct2, THEN conjunct2, THEN conjunct1]
    o [of "chat_calls (with_client fresh_state)"]
    o [of "chat_calls (with_client fresh_state) + 1"]
    o [of "chat_calls (with_client fresh_state) + 2"]
  have r2: "extract_topics_llm failing_runtime ''some text'' None None fresh_state
       = (Inl (RetryError (ProviderError ''connection refused'')),
          after_chats (topics_request failing_runtime ''some text'' None) 3
            (with_client fresh_state))"
    by blast
  from example_topics_client(1) a l r1 example_topics_client(2) f r2 show ?thesis
    by (intro conjI)
qed

section \<open>Facts about the attempts of the discrete extraction\<close>

lemma discrete_attempt_eq:
  "discrete_attempt rt c m (new, after_chats req' k st) =
     (case memories_outcome rt c m (chat_calls st + k) of
        Inl e \<Rightarrow> (Inl e, (new,
            (after_chats req' k st)\<lparr>chat_calls := Suc (chat_calls (after_chats req' k st)),
              trace := trace (after_chats req' k st) @ [ChatCompletion (discrete_request rt m)]\<rparr>))
      | Inr ms \<Rightarrow> (Inr (), (new @ ms,
            (after_chats req' k st)\<lparr>chat_calls := Suc (chat_calls (after_chats req' k st)),
              trace := trace (after_chats req' k st) @ [ChatCompletion (discrete_request rt m)]\<rparr>)))"
  by (simp add: discrete_attempt_def create_chat_completion_def memories_outcome_def
      split: sum.splits)

lemma retry_discrete_unrolled:
  "AsyncRetrying 3 (discrete_attempt rt c m) (new, st) =
     (let req = discrete_request rt m; n = chat_calls st in
      case memories_outcome rt c m n of
        Inr ms \<Rightarrow> (Inr (), (new @ ms, after_chats req 1 st))
      | Inl e1 \<Rightarrow>
         (case memories_outcome rt c m (n + 1) of
            Inr ms \<Rightarrow> (Inr (), (new @ ms, after_chats req 2 st))
          | Inl e2 \<Rightarrow>
             (case memories_outcome rt c m (n + 2) of
                Inr ms \<Rightarrow> (Inr (), (new @ ms, after_chats req 3 st))
              | Inl e3 \<Rightarrow> (Inl (RetryError e3), (new, after_chats req 3 st)))))"
proof -
  let ?req = "discrete_request rt m"
  have s1: "(after_chats ?req 0 st)\<lparr>chat_calls := Suc (chat_calls (after_chats ?req 0 st)),
        trace := trace (after_chats ?req 0 st) @ [ChatCompletion ?req]\<rparr> = after_chats ?req 1 st"
    by (simp add: after_chats_def)
  have s2: "(after_chats ?req 1 st)\<lparr>chat_calls := Suc (chat_calls (after_chats ?req 1 st)),
        trace := trace (after_chats ?req 1 st) @ [ChatCompletion ?req]\<rparr> = after_chats ?req 2 st"
    by (simp add: after_chats_def numeral_2_eq_2)
  have s3: "(after_chats ?req 2 st)\<lparr>chat_calls := Suc (chat_calls (after_chats ?req 2 st)),
        trace := trace (after_chats ?req 2 st) @ [ChatCompletion ?req]\<rparr> = after_chats ?req 3 st"
    by (simp add: after_chats_def numeral_2_eq_2 numeral_3_eq_3)
  have b0: "discrete_attempt rt c m (new', st) =
     (case memories_outcome rt c m (chat_calls st) of
        Inl e \<Rightarrow> (Inl e, (new', after_chats ?req 1 st))
      | Inr ms \<Rightarrow> (Inr (), (new' @ ms, after_chats ?req 1 st)))" for new'
    using discrete_attempt_eq [of rt c m new' ?req 0 st] by (simp only: s1) simp
  have b1: "discrete_attempt rt c m (new', after_chats ?req 1 st) =
     (case memories_outcome rt c m (chat_calls st + 1) of
        Inl e \<Rightarrow> (Inl e, (new', after_chats ?req 2 st))
      | Inr ms \<Rightarrow> (Inr (), (new' @ ms, after_chats ?req 2 st)))" for new'
    using discrete_attempt_eq [of rt c m new' ?req 1 st] by (simp only: s2)
  have b2: "discrete_attempt rt c m (new', after_chats ?req 2 st) =
     (case memories_outcome rt c m (chat_calls st + 2) of
        Inl e \<Rightarrow> (Inl e, (new', after_chats ?req 3 st))
      | Inr ms \<Rightarrow> (Inr (), (new' @ ms, after_chats ?req 3 st)))" for new'
    using discrete_attempt_eq [of rt c m new' ?req 2 st] by (simp only: s3)
  show ?thesis
    by (cases "memories_outcome rt c m (chat_calls st)";
        cases "memories_outcome rt c m (chat_calls st + 1)";
        cases "memories_outcome rt c m (chat_calls st + 2)")
       (simp_all only: AsyncRetrying_3 Let_def b0 b1 b2 sum.case prod.case)
qed

lemma example_generation_config:
  "get_model_config (generation_model (app_settings scripted_runtime))
     = Inr (mk_config OPENAI ''gpt-4o-mini'' 128000 1536)"
  "get_model_config (generation_model (app_settings undecodable_runtime))
     = Inr (mk_config OPENAI ''gpt-4o-mini'' 128000 1536)"
  by (simp_all add: scripted_runtime_def example_defs get_model_config_def dict_contains_def
      dict_getitem_def MODEL_CONFIGS_def)

lemma example_generation_client:
  "get_model_client (openai_importable scripted_runtime) (anthropic_importable scripted_runtime)
     (os_environ scripted_runtime) (ByEnum (provider (mk_config OPENAI ''gpt-4o-mini'' 128000 1536)))
     (llms fresh_state) = Inr (example_client, llms (with_client fresh_state))"
  "get_model_client (openai_importable undecodable_runtime) (anthropic_importable undecodable_runtime)
     (os_environ undecodable_runtime) (ByEnum (provider (mk_config OPENAI ''gpt-4o-mini'' 128000 1536)))
     (llms fresh_state) = Inr (example_client, llms (with_client fresh_state))"
  by (simp_all add: scripted_runtime_def example_defs client_defs)

lemma scripted_outcome:
  "memories_outcome scripted_runtime example_client hello_record n
     = (if n = 0 \<or> n = 1 then Inl JSONDecodeError else Inr [semantic_X])"
  by (simp add: memories_outcome_def memories_of_answer_def chat_answer_def
      OpenAI_create_chat_completion_def parse_memories_def message_content_def py_json_loads_def
      dict_getitem_def scripted_runtime_def example_defs valid_memories_text_def)

section \<open>A record whose third attempt succeeds\<close>

lemma new_memory_record_semantic_X:
  "new_memory_record i semantic_X
     = Inr \<lparr>id' = i, text = ''X'', memory_type = ''semantic'', topics = [], entities = [],
            discrete_memory_extracted = ''t''\<rparr>"
  by (simp add: new_memory_record_def semantic_X_def dict_getitem_def dict_get_def
      MemoryRecord_validate_def)

text \<open>
  A record with text given alone, with the client of the generation model
  available: when its first two attempts fail and the third gives the one memory
  of type \<open>semantic\<close> and text \<open>X\<close> with no topics and no entities, the call
  succeeds after three chat calls, the copy of the source record with the flag \<open>t\<close>
  is sent to the bulk update, and exactly one new record, with a generated id,
  type \<open>semantic\<close>, text \<open>X\<close> and the flag \<open>t\<close>, is handed to the indexing routine
  with the caller's \<open>deduplicate\<close>.
\<close>

lemma third_attempt_run:
  assumes config: "get_model_config (generation_model (app_settings rt)) = Inr config"
      and client: "get_model_client (openai_importable rt) (anthropic_importable rt)
                     (os_environ rt) (ByEnum (provider config)) (llms st) = Inr (c, l)"
      and nonempty: "text m \<noteq> []"
      and first: "memories_outcome rt c m (chat_calls st) = Inl e1"
      and second: "memories_outcome rt c m (chat_calls st + 1) = Inl e2"
      and third: "memories_outcome rt c m (chat_calls st + 2) = Inr [semantic_X]"
  shows "extract_discrete_memories rt (Some [m]) deduplicate st =
           Some (Inr (),
             \<lparr>llms = l, chat_calls = chat_calls st + 3, ulids = ulids st + 1,
              trace = trace st @ replicate 3 (ChatCompletion (discrete_request rt m))
                @ [UpdateMemories [m\<lparr>discrete_memory_extracted := ''t''\<rparr>],
                   IndexLongTermMemories
                     [\<lparr>id' = new_ulid rt (ulids st), text = ''X'', memory_type = ''semantic'',
                       topics = [], entities = [], discrete_memory_extracted = ''t''\<rparr>]
                     deduplicate]\<rparr>)"
proof -
  let ?st1 = "st\<lparr>llms := l\<rparr>"
  have sel: "select_memories rt (Some [m]) ?st1 = Some ([m], ?st1)"
    by (simp add: select_memories_def)
  have retry: "AsyncRetrying 3 (discrete_attempt rt c m) ([], ?st1)
                 = (Inr (), ([semantic_X], after_chats (discrete_request rt m) 3 ?st1))"
    using first second third by (simp add: retry_discrete_unrolled Let_def)
  have proc: "process_memories rt c [m] [] [] ?st1
                = (Inr ([semantic_X], [m\<lparr>discrete_memory_extracted := ''t''\<rparr>]),
                   after_chats (discrete_request rt m) 3 ?st1)"
    using nonempty by (simp add: retry)
  have fl: "flush_memories rt deduplicate [semantic_X] [m\<lparr>discrete_memory_extracted := ''t''\<rparr>]
              (after_chats (discrete_request rt m) 3 ?st1)
            = (Inr (),
             \<lparr>llms = l, chat_calls = chat_calls st + 3, ulids = ulids st + 1,
              trace = trace st @ replicate 3 (ChatCompletion (discrete_request rt m))
                @ [UpdateMemories [m\<lparr>discrete_memory_extracted := ''t''\<rparr>],
                   IndexLongTermMemories
                     [\<lparr>id' = new_ulid rt (ulids st), text = ''X'', memory_type = ''semantic'',
                       topics = [], entities = [], discrete_memory_extracted = ''t''\<rparr>]
                     deduplicate]\<rparr>)"
    by (simp add: flush_memories_def after_chats_def new_memory_record_semantic_X Let_def)
  show ?thesis
    by (simp only: extract_discrete_memories_def config client sel proc fl
        sum.case prod.case option.case)
qed

lemma scripted_answers:
  "chat_answer scripted_runtime example_client 0 (discrete_request scripted_runtime hello_record)
     = Inr \<lparr>choices = [ChoiceObject (Some ''not json'')]\<rparr>"
  "chat_answer scripted_runtime example_client 1 (discrete_request scripted_runtime hello_record)
     = Inr \<lparr>choices = [ChoiceObject (Some ''{bad}'')]\<rparr>"
  "chat_answer scripted_runtime example_client 2 (discrete_request scripted_runtime hello_record)
     = Inr \<lparr>choices = [ChoiceObject (Some
         ''{\"memories\":[{\"type\":\"semantic\",\"text\":\"X\",\"topics\":[],\"entities\":[]}]}'')]\<rparr>"
  by (simp_all add: chat_answer_def OpenAI_create_chat_completion_def scripted_runtime_def
      example_defs valid_memories_text_def)

lemma scripted_single_run:
  "extract_discrete_memories scripted_runtime (Some [hello_record]) True fresh_state =
        Some (Inr (),
          \<lparr>llms = llms (with_client fresh_state), chat_calls = 3, ulids = 1,
           trace = replicate 3 (ChatCompletion (discrete_request scripted_runtime hello_record))
             @ [UpdateMemories [hello_record\<lparr>discrete_memory_extracted := ''t''\<rparr>],
                IndexLongTermMemories
                  [\<lparr>id' = ''01J'', text = ''X'', memory_type = ''semantic'',
                    topics = [], entities = [], discrete_memory_extracted = ''t''\<rparr>]
                  True]\<rparr>)"
proof -
  have t: "text hello_record \<noteq> []" by (simp add: hello_record_def)
  have o: "memories_outcome scripted_runtime example_client hello_record (chat_calls fresh_state)
             = Inl JSONDecodeError"
    "memories_outcome scripted_runtime example_client hello_record (chat_calls fresh_state + 1)
             = Inl JSONDecodeError"
    "memories_outcome scripted_runtime example_client hello_record (chat_calls fresh_state + 2)
             = Inr [semantic_X]"
    by (simp_all add: scripted_outcome fresh_state_def)
  have u: "new_ulid scripted_runtime (ulids fresh_state) = ''01J''"
    by (simp add: scripted_runtime_def example_defs)
  show ?thesis
    using u
      third_attempt_run [OF example_generation_config(1)
        example_generation_client(1) t o, of True]
    by (simp add: fresh_state_def)
qed

section \<open>Facts about the selection, the loop over the records and the flush\<close>

lemma after_chats_fields [simp]:
  "llms (after_chats req k st) = llms st"
  "ulids (after_chats req k st) = ulids st"
  "trace (after_chats req k st) = trace st @ replicate k (ChatCompletion req)"
  by (simp_all add: after_chats_def)

lemma retry_discrete_cases:
  assumes "AsyncRetrying 3 (discrete_attempt rt c m) (new, st) = (r, (new', st'))"
  shows "\<exists>k. st' = after_chats (discrete_request rt m) k st
            \<and> (case r of Inl e \<Rightarrow> new' = new | Inr u \<Rightarrow> \<exists>ms. new' = new @ ms)"
  using assms unfolding retry_discrete_unrolled Let_def
  by (auto split: sum.splits)

lemma loop_event_Cons: "loop_event rt ms e \<Longrightarrow> loop_event rt (m # ms) e"
  by (auto simp: loop_event_def)

lemma process_memories_events:
  "process_memories rt c ms new upd st = (r, st') \<Longrightarrow>
     llms st' = llms st \<and> ulids st' = ulids st
     \<and> (\<exists>evs. trace st' = trace st @ evs \<and> (\<forall>e \<in> set evs. loop_event rt ms e)
          \<and> (\<forall>new' upd'. r = Inr (new', upd') \<longrightarrow>
                upd' = upd @ map (\<lambda>m. m\<lparr>discrete_memory_extracted := ''t''\<rparr>)
                                [m \<leftarrow> ms. text m \<noteq> []]
              \<and> [e \<leftarrow> evs. \<not> is_chat e]
                  = map (\<lambda>m. DeleteMemories [id' m]) [m \<leftarrow> ms. text m = []]))"
proof (induction ms arbitrary: new upd st)
  case Nil
  then show ?case by auto
next
  case (Cons m ms)
  show ?case
  proof (cases "text m = []")
    case True
    let ?st1 = "st\<lparr>trace := trace st @ [DeleteMemories [id' m]]\<rparr>"
    from Cons.prems True have "process_memories rt c ms new upd ?st1 = (r, st')" by simp
    from Cons.IH [OF this] obtain evs where
      f: "llms st' = llms st" "ulids st' = ulids st"
      and t: "trace st' = trace st @ DeleteMemories [id' m] # evs"
      and l: "\<forall>e \<in> set evs. loop_event rt ms e"
      and s: "\<forall>new' upd'. r = Inr (new', upd') \<longrightarrow>
                upd' = upd @ map (\<lambda>m. m\<lparr>discrete_memory_extracted := ''t''\<rparr>)
                                [m \<leftarrow> ms. text m \<noteq> []]
              \<and> [e \<leftarrow> evs. \<not> is_chat e]
                  = map (\<lambda>m. DeleteMemories [id' m]) [m \<leftarrow> ms. text m = []]"
      by auto
    have d: "loop_event rt (m # ms) (DeleteMemories [id' m])"
      using True by (auto simp: loop_event_def)
    from l d have l': "\<forall>e \<in> set (DeleteMemories [id' m] # evs). loop_event rt (m # ms) e"
      by (auto intro: loop_event_Cons)
    from s True have s': "\<forall>new' upd'. r = Inr (new', upd') \<longrightarrow>
                upd' = upd @ map (\<lambda>m. m\<lparr>discrete_memory_extracted := ''t''\<rparr>)
                                [m \<leftarrow> m # ms. text m \<noteq> []]
              \<and> [e \<leftarrow> DeleteMemories [id' m] # evs. \<not> is_chat e]
                  = map (\<lambda>m. DeleteMemories [id' m]) [m \<leftarrow> m # ms. text m = []]"
      by (simp add: is_chat_def)
    from f t l' s' show ?thesis by blast
  next
    case False
    obtain r0 new0 st0 where a: "AsyncRetrying 3 (discrete_attempt rt c m) (new, st) = (r0, (new0, st0))"
      by (metis prod.exhaust)
    from retry_discrete_cases [OF a] obtain k where
      st0: "st0 = after_chats (discrete_request rt m) k st" by blast
    have c: "\<forall>e \<in> set (replicate k (ChatCompletion (discrete_request rt m))). loop_event rt (m # ms) e"
      using False by (auto simp: loop_event_def)
    have nc: "[e \<leftarrow> replicate k (ChatCompletion (discrete_request rt m)). \<not> is_chat e] = []"
      by (simp add: is_chat_def)
    show ?thesis
    proof (cases r0)
      case (Inl e)
      with Cons.prems False a have "r = Inl e" "st' = st0" by simp_all
      with st0 c show ?thesis by auto
    next
      case (Inr u)
      with Cons.prems False a
      have "process_memories rt c ms new0 (upd @ [m\<lparr>discrete_memory_extracted := ''t''\<rparr>]) st0
              = (r, st')" by simp
      from Cons.IH [OF this] obtain evs where
        f: "llms st' = llms st0" "ulids st' = ulids st0"
        and t: "trace st' = trace st0 @ evs"
        and l: "\<forall>e \<in> set evs. loop_event rt ms e"
        and s: "\<forall>new' upd'. r = Inr (new', upd') \<longrightarrow>
                upd' = (upd @ [m\<lparr>discrete_memory_extracted := ''t''\<rparr>])
                         @ map (\<lambda>m. m\<lparr>discrete_memory_extracted := ''t''\<rparr>)
                                [m \<leftarrow> ms. text m \<noteq> []]
              \<and> [e \<leftarrow> evs. \<not> is_chat e]
                  = map (\<lambda>m. DeleteMemories [id' m]) [m \<leftarrow> ms. text m = []]"
        by auto
      let ?evs = "replicate k (ChatCompletion (discrete_request rt m)) @ evs"
      from f st0 have f': "llms st' = llms st" "ulids st' = ulids st" by simp_all
      from t st0 have t': "trace st' = trace st @ ?evs" by simp
      from l c have l': "\<forall>e \<in> set ?evs. loop_event rt (m # ms) e"
        by (auto intro: loop_event_Cons)
      from s False nc have s': "\<forall>new' upd'. r = Inr (new', upd') \<longrightarrow>
                upd' = upd @ map (\<lambda>m. m\<lparr>discrete_memory_extracted := ''t''\<rparr>)
                                [m \<leftarrow> m # ms. text m \<noteq> []]
              \<and> [e \<leftarrow> ?evs. \<not> is_chat e]
                  = map (\<lambda>m. DeleteMemories [id' m]) [m \<leftarrow> m # ms. text m = []]"
        by simp
      from f' t' l' s' show ?thesis by blast
    qed
  qed
qed

lemma process_memories_append:
  "process_memories rt c (pre @ rest) new upd st =
     (case process_memories rt c pre new upd st of
        (Inl e, st') \<Rightarrow> (Inl e, st')
      | (Inr (new', upd'), st') \<Rightarrow> process_memories rt c rest new' upd' st')"
proof (induction pre arbitrary: new upd st)
  case Nil
  then show ?case by simp
next
  case (Cons m pre)
  show ?case
  proof (cases "text m = []")
    case True
    then show ?thesis by (simp add: Cons.IH)
  next
    case False
    then show ?thesis by (simp add: Cons.IH split: prod.splits sum.splits)
  qed
qed

lemma scan_memories_pages:
  assumes "\<forall>i<k. \<not> length (adapter_search rt (offset + 25 * i)) < 25"
      and "length (adapter_search rt (offset + 25 * k)) < 25"
  shows "scan_memories rt memories offset st =
           Some (memories @ concat (map (\<lambda>i. adapter_search rt (offset + 25 * i)) [0..<Suc k]),
                 st\<lparr>trace := trace st @ map (\<lambda>i. search_at (offset + 25 * i)) [0..<Suc k]\<rparr>)"
  using assms
proof (induction k arbitrary: memories offset st)
  case 0
  then show ?case
    by (subst scan_memories.simps) (simp add: Let_def search_at_def)
next
  case (Suc k)
  let ?page = "adapter_search rt offset"
  let ?st1 = "st\<lparr>trace := trace st @ [search_at offset]\<rparr>"
  from Suc.prems(1) have full: "\<not> length ?page < 25" by force
  have later: "\<forall>i<k. \<not> length (adapter_search rt ((offset + 25) + 25 * i)) < 25"
  proof (intro allI impI)
    fix i assume "i < k"
    then have "Suc i < Suc k" by simp
    with Suc.prems(1) have "\<not> length (adapter_search rt (offset + 25 * Suc i)) < 25" by blast
    then show "\<not> length (adapter_search rt ((offset + 25) + 25 * i)) < 25"
      by (simp add: add.assoc)
  qed
  from Suc.prems(2) have short: "length (adapter_search rt ((offset + 25) + 25 * k)) < 25"
    by (simp add: add.assoc)
  have step: "scan_memories rt memories offset st
                = scan_memories rt (memories @ ?page) (offset + 25) ?st1"
    using full by (subst scan_memories.simps) (simp add: Let_def search_at_def)
  have reindex: "map f [0..<Suc (Suc k)] = f 0 # map (\<lambda>i. f (Suc i)) [0..<Suc k]" for f :: "nat \<Rightarrow> 'x"
    by (rule map_upt_Suc)
  show ?case
    unfolding step Suc.IH [OF later short] reindex
    by (simp add: add.assoc del: upt_Suc)
qed

lemma scan_memories_events_aux:
  "scan_memories rt memories offset st = Some y \<Longrightarrow>
     llms (snd y) = llms st \<and> chat_calls (snd y) = chat_calls st \<and> ulids (snd y) = ulids st
       \<and> (\<exists>evs. trace (snd y) = trace st @ evs \<and> (\<forall>e \<in> set evs. is_search e))"
proof (induction rule: scan_memories.raw_induct [rotated 1, consumes 1])
  case (1 scan rt memories offset st y)
  let ?page = "adapter_search rt offset"
  let ?st' = "st\<lparr>trace := trace st @ [SearchMemories [] ''message'' ''f'' 25 offset]\<rparr>"
  show ?case
  proof (cases "length ?page < 25")
    case True
    with 1(2) have "snd y = ?st'" by (auto simp: Let_def)
    then show ?thesis by (simp add: is_search_def)
  next
    case False
    with 1(2) have "scan rt (memories @ ?page) (offset + 25) ?st' = Some y"
      by (simp add: Let_def)
    from 1(1) [OF this] obtain evs where
      f: "llms (snd y) = llms st" "chat_calls (snd y) = chat_calls st" "ulids (snd y) = ulids st"
      and t: "trace (snd y) = trace st @ SearchMemories [] ''message'' ''f'' 25 offset # evs"
      and e: "\<forall>e \<in> set evs. is_search e"
      by auto
    from e have "\<forall>e \<in> set (SearchMemories [] ''message'' ''f'' 25 offset # evs). is_search e"
      by (simp add: is_search_def)
    with f t show ?thesis by blast
  qed
qed

lemma select_memories_events:
  assumes "select_memories rt memories st = Some (selected, st1)"
  shows "llms st1 = llms st \<and> chat_calls st1 = chat_calls st \<and> ulids st1 = ulids st
       \<and> (\<exists>evs. trace st1 = trace st @ evs \<and> (\<forall>e \<in> set evs. is_search e))"
proof (cases "\<exists>m ms. memories = Some (m # ms)")
  case True
  with assms have "st1 = st" by (auto simp: select_memories_def)
  then show ?thesis by simp
next
  case False
  with assms have "scan_memories rt [] 0 st = Some (selected, st1)"
    by (auto simp: select_memories_def split: option.splits list.splits)
  from scan_memories_events_aux [OF this] show ?thesis by simp
qed

lemma flush_memories_events:
  assumes "flush_memories rt deduplicate new upd st = (r, st')"
  shows "\<exists>evs. trace st' = trace st @ evs
           \<and> (\<forall>e \<in> set evs. e = UpdateMemories upd \<or> is_index e)"
proof -
  let ?st1 = "if upd \<noteq> [] then st\<lparr>trace := trace st @ [UpdateMemories upd]\<rparr> else st"
  have a: "\<exists>evs. trace ?st1 = trace st @ evs \<and> (\<forall>e \<in> set evs. e = UpdateMemories upd \<or> is_index e)"
    by simp
  have b: "st' = ?st1 \<or> (\<exists>ltm. st' = ?st1\<lparr>ulids := ulids ?st1 + length new,
              trace := trace ?st1 @ [IndexLongTermMemories ltm deduplicate]\<rparr>)"
    using assms by (auto simp: flush_memories_def Let_def split: if_splits sum.splits)
  from a obtain evs where t: "trace ?st1 = trace st @ evs"
    and e: "\<forall>e \<in> set evs. e = UpdateMemories upd \<or> is_index e" by blast
  from b show ?thesis
  proof
    assume "st' = ?st1"
    with t e show ?thesis by blast
  next
    assume "\<exists>ltm. st' = ?st1\<lparr>ulids := ulids ?st1 + length new,
              trace := trace ?st1 @ [IndexLongTermMemories ltm deduplicate]\<rparr>"
    then obtain ltm where "st' = ?st1\<lparr>ulids := ulids ?st1 + length new,
              trace := trace ?st1 @ [IndexLongTermMemories ltm deduplicate]\<rparr>" by blast
    then have "trace st' = trace st @ (evs @ [IndexLongTermMemories ltm deduplicate])"
      using t by simp
    moreover have "\<forall>e \<in> set (evs @ [IndexLongTermMemories ltm deduplicate]).
                     e = UpdateMemories upd \<or> is_index e"
      using e by (simp add: is_index_def)
    ultimately show ?thesis by blast
  qed
qed

lemma loop_event_kind:
  "loop_event rt ms e \<Longrightarrow> \<not> is_search e \<and> \<not> is_update e \<and> \<not> is_index e
      \<and> (is_write e \<longleftrightarrow> \<not> is_chat e)"
  by (auto simp: loop_event_def is_search_def is_update_def is_index_def is_write_def is_chat_def
      is_delete_def)

lemma search_kind:
  "is_search e \<Longrightarrow> \<not> is_write e \<and> \<not> is_chat e \<and> \<not> is_update e \<and> \<not> is_index e"
  by (auto simp: is_search_def is_write_def is_chat_def is_delete_def is_update_def is_index_def
      split: event.splits)

lemma chat_kind:
  "\<not> is_write (ChatCompletion req) \<and> \<not> is_update (ChatCompletion req)
     \<and> \<not> is_index (ChatCompletion req) \<and> \<not> is_search (ChatCompletion req)"
  by (simp add: is_write_def is_delete_def is_update_def is_index_def is_search_def)

lemma events_since_append: "trace st' = trace st @ evs \<Longrightarrow> events_since st st' = evs"
  by (simp add: events_since_def)

lemma run_events:
  assumes run: "extract_discrete_memories rt memories deduplicate st = Some (r, st')"
  shows "\<exists>selected evs_s evs_p evs_f us.
           events_since st st' = evs_s @ evs_p @ evs_f
         \<and> (\<forall>e \<in> set evs_s. is_search e)
         \<and> (\<forall>e \<in> set evs_p. loop_event rt selected e)
         \<and> (\<forall>e \<in> set evs_f. e = UpdateMemories us \<or> is_index e)
         \<and> (\<forall>u \<in> set us. text u \<noteq> [])"
proof -
  have trivial: ?thesis if "st' = st"
  proof -
    from that have e: "events_since st st' = [] @ [] @ []" by (simp add: events_since_def)
    show ?thesis
    proof (intro exI conjI)
      show "events_since st st' = [] @ [] @ []" by (rule e)
      show "\<forall>e \<in> set []. is_search e" by simp
      show "\<forall>e \<in> set []. loop_event rt [] e" by simp
      show "\<forall>e \<in> set []. e = UpdateMemories [] \<or> is_index e" by simp
      show "\<forall>u \<in> set []. text u \<noteq> []" by simp
    qed
  qed
  show ?thesis
  proof (cases "get_model_config (generation_model (app_settings rt))")
    case (Inl e)
    with run have "st' = st"
      by (simp only: extract_discrete_memories_def sum.case) simp
    then show ?thesis by (rule trivial)
  next
    case config: (Inr config)
    show ?thesis
    proof (cases "get_model_client (openai_importable rt) (anthropic_importable rt)
                     (os_environ rt) (ByEnum (provider config)) (llms st)")
      case (Inl e)
      with run have "st' = st"
        by (simp only: extract_discrete_memories_def config sum.case) simp
      then show ?thesis by (rule trivial)
    next
      case (Inr cl)
      obtain c l where cl: "cl = (c, l)" by (cases cl)
      note client = Inr [unfolded cl]
      have "select_memories rt memories (st\<lparr>llms := l\<rparr>) \<noteq> None"
      proof
        assume "select_memories rt memories (st\<lparr>llms := l\<rparr>) = None"
        with run show False
          by (simp only: extract_discrete_memories_def config client sum.case prod.case
              option.case) simp
      qed
      then obtain selected st1 where
        sel: "select_memories rt memories (st\<lparr>llms := l\<rparr>) = Some (selected, st1)"
        by (cases "select_memories rt memories (st\<lparr>llms := l\<rparr>)") auto
      obtain r2 st2 where proc: "process_memories rt c selected [] [] st1 = (r2, st2)"
        by (cases "process_memories rt c selected [] [] st1")
      from select_memories_events [OF sel] obtain evs_s where
        ts: "trace st1 = trace st @ evs_s" and es: "\<forall>e \<in> set evs_s. is_search e"
        by auto
      from process_memories_events [OF proc] obtain evs_p where
        tp: "trace st2 = trace st1 @ evs_p" and ep: "\<forall>e \<in> set evs_p. loop_event rt selected e"
        and up: "\<forall>new' upd'. r2 = Inr (new', upd') \<longrightarrow>
                   upd' = [] @ map (\<lambda>m. m\<lparr>discrete_memory_extracted := ''t''\<rparr>)
                                [m \<leftarrow> selected. text m \<noteq> []]"
        by auto
      show ?thesis
      proof (cases r2)
        case (Inl e)
        with run proc have "st' = st2"
          by (simp only: extract_discrete_memories_def config client sel sum.case prod.case
              option.case) simp
        with ts tp have e: "events_since st st' = evs_s @ evs_p @ []"
          by (simp add: events_since_def)
        show ?thesis
        proof (intro exI conjI)
          show "events_since st st' = evs_s @ evs_p @ []" by (rule e)
          show "\<forall>e \<in> set evs_s. is_search e" by (rule es)
          show "\<forall>e \<in> set evs_p. loop_event rt selected e" by (rule ep)
          show "\<forall>e \<in> set []. e = UpdateMemories [] \<or> is_index e" by simp
          show "\<forall>u \<in> set []. text u \<noteq> []" by simp
        qed
      next
        case (Inr nu)
        obtain new' upd' where nu: "nu = (new', upd')" by (cases nu)
        from run proc Inr nu
        have fl: "flush_memories rt deduplicate new' upd' st2 = (r, st')"
          by (simp only: extract_discrete_memories_def config client sel sum.case prod.case
              option.case) simp
        from flush_memories_events [OF fl] obtain evs_f where
          tf: "trace st' = trace st2 @ evs_f"
          and ef': "\<forall>e \<in> set evs_f. e = UpdateMemories upd' \<or> is_index e"
          by blast
        from up Inr nu
        have "upd' = map (\<lambda>m. m\<lparr>discrete_memory_extracted := ''t''\<rparr>)
                       [m \<leftarrow> selected. text m \<noteq> []]" by simp
        then have tu: "\<forall>u \<in> set upd'. text u \<noteq> []" by auto
        from ts tp tf have e: "events_since st st' = evs_s @ evs_p @ evs_f"
          by (simp add: events_since_def)
        show ?thesis
        proof (intro exI conjI)
          show "events_since st st' = evs_s @ evs_p @ evs_f" by (rule e)
          show "\<forall>e \<in> set evs_s. is_search e" by (rule es)
          show "\<forall>e \<in> set evs_p. loop_event rt selected e" by (rule ep)
          show "\<forall>e \<in> set evs_f. e = UpdateMemories upd' \<or> is_index e" by (rule ef')
          show "\<forall>u \<in> set upd'. text u \<noteq> []" by (rule tu)
        qed
      qed
    qed
  qed
qed

lemma scan_30:
  assumes len: "length records = 30"
      and adapter: "adapter_search rt = (\<lambda>offset. take 25 (drop offset records))"
  shows "scan_memories rt [] 0 st
           = Some (records, st\<lparr>trace := trace st @ [search_at 0, search_at 25]\<rparr>)"
    and "length (adapter_search rt 0) = 25" and "length (adapter_search rt 25) = 5"
proof -
  show p0: "length (adapter_search rt 0) = 25" using len by (simp add: adapter)
  show p1: "length (adapter_search rt 25) = 5" using len by (simp add: adapter)
  have full: "\<forall>i<1. \<not> length (adapter_search rt (0 + 25 * i)) < 25" using p0 by simp
  have short: "length (adapter_search rt (0 + 25 * 1)) < 25" using p1 by simp
  have pages: "concat (map (\<lambda>i. adapter_search rt (0 + 25 * i)) [0..<Suc 1]) = records"
    using len by (simp add: adapter)
  have searches: "map (\<lambda>i. search_at (0 + 25 * i)) [0..<Suc 1] = [search_at 0, search_at 25]"
    by simp
  show "scan_memories rt [] 0 st
           = Some (records, st\<lparr>trace := trace st @ [search_at 0, search_at 25]\<rparr>)"
    using scan_memories_pages [OF full short, of "[]" st]
    by (simp only: pages searches append_Nil)
qed

lemma flush_kind: "e = UpdateMemories us \<or> is_index e \<Longrightarrow> \<not> is_search e"
  by (auto simp: is_index_def is_search_def split: event.splits)

lemma run_searches_30:
  assumes len: "length records = 30"
      and adapter: "adapter_search rt = (\<lambda>offset. take 25 (drop offset records))"
      and config: "get_model_config (generation_model (app_settings rt)) = Inr config"
      and client: "get_model_client (openai_importable rt) (anthropic_importable rt)
                     (os_environ rt) (ByEnum (provider config)) (llms st) = Inr (c, l)"
      and none: "memories = None \<or> memories = Some []"
  shows "\<exists>r st'. extract_discrete_memories rt memories deduplicate st = Some (r, st')
           \<and> [e \<leftarrow> events_since st st'. is_search e] = [search_at 0, search_at 25]"
proof -
  let ?st0 = "st\<lparr>llms := l\<rparr>"
  let ?st1 = "?st0\<lparr>trace := trace ?st0 @ [search_at 0, search_at 25]\<rparr>"
  have sel: "select_memories rt memories ?st0 = Some (records, ?st1)"
    using none scan_30(1) [OF len adapter, of ?st0] by (auto simp: select_memories_def)
  obtain r2 st2 where proc: "process_memories rt c records [] [] ?st1 = (r2, st2)"
    by (cases "process_memories rt c records [] [] ?st1")
  from process_memories_events [OF proc] obtain evs_p where
    tp: "trace st2 = trace ?st1 @ evs_p" and ep: "\<forall>e \<in> set evs_p. loop_event rt records e"
    by auto
  have fp: "[e \<leftarrow> evs_p. is_search e] = []"
    using ep by (auto simp: filter_empty_conv dest: loop_event_kind)
  have fs: "[e \<leftarrow> [search_at 0, search_at 25]. is_search e] = [search_at 0, search_at 25]"
    by (simp add: search_at_def is_search_def)
  show ?thesis
  proof (cases r2)
    case (Inl e)
    with proc have run: "extract_discrete_memories rt memories deduplicate st = Some (Inl e, st2)"
      by (simp only: extract_discrete_memories_def config client sel sum.case prod.case
          option.case)
    from tp have "events_since st st2 = [search_at 0, search_at 25] @ evs_p"
      by (simp add: events_since_def)
    then have "[e \<leftarrow> events_since st st2. is_search e] = [search_at 0, search_at 25]"
      by (simp only: filter_append fp fs append_Nil2)
    with run show ?thesis by blast
  next
    case (Inr nu)
    obtain new' upd' where nu: "nu = (new', upd')" by (cases nu)
    obtain r st' where fl: "flush_memories rt deduplicate new' upd' st2 = (r, st')"
      by (cases "flush_memories rt deduplicate new' upd' st2")
    from proc Inr nu fl
    have run: "extract_discrete_memories rt memories deduplicate st = Some (r, st')"
      by (simp only: extract_discrete_memories_def config client sel sum.case prod.case
          option.case)
    from flush_memories_events [OF fl] obtain evs_f where
      tf: "trace st' = trace st2 @ evs_f"
      and ef: "\<forall>e \<in> set evs_f. e = UpdateMemories upd' \<or> is_index e"
      by blast
    have ff: "[e \<leftarrow> evs_f. is_search e] = []"
      unfolding filter_empty_conv using ef flush_kind by blast
    from tp tf have "events_since st st' = [search_at 0, search_at 25] @ evs_p @ evs_f"
      by (simp add: events_since_def)
    then have "[e \<leftarrow> events_since st st'. is_search e] = [search_at 0, search_at 25]"
      by (simp only: filter_append fp fs ff append_Nil2)
    with run show ?thesis by blast
  qed
qed

lemma undecodable_outcome:
  "memories_outcome undecodable_runtime example_client hello_record n = Inl JSONDecodeError"
  by (simp add: memories_outcome_def memories_of_answer_def chat_answer_def
      OpenAI_create_chat_completion_def parse_memories_def message_content_def py_json_loads_def
      example_defs)

lemma with_client_eq: "fresh_state\<lparr>llms := llms (with_client fresh_state)\<rparr> = with_client fresh_state"
  by (simp add: with_client_def)

lemma record_texts: "text blank_record = []" "text hello_record \<noteq> []" "id' blank_record = ''m0''"
  by (simp_all add: blank_record_def hello_record_def)

lemma after_chats_3:
  "after_chats req 3 st =
     st\<lparr>chat_calls := chat_calls st + 3,
        trace := trace st @ [ChatCompletion req, ChatCompletion req, ChatCompletion req]\<rparr>"
  by (simp add: after_chats_def numeral_3_eq_3)

lemma undecodable_before:
  "process_memories undecodable_runtime example_client [blank_record] [] [] (with_client fresh_state)
     = (Inr ([], []), (with_client fresh_state)\<lparr>trace := [DeleteMemories [''m0'']]\<rparr>)"
  by (simp add: record_texts with_client_def fresh_state_def)

lemma undecodable_run:
  "extract_discrete_memories undecodable_runtime (Some [blank_record, hello_record]) True fresh_state
     = Some (Inl (RetryError JSONDecodeError),
         \<lparr>llms = llms (with_client fresh_state), chat_calls = 3, ulids = 0,
          trace = [DeleteMemories [''m0''],
                   ChatCompletion (discrete_request undecodable_runtime hello_record),
                   ChatCompletion (discrete_request undecodable_runtime hello_record),
                   ChatCompletion (discrete_request undecodable_runtime hello_record)]\<rparr>)"
proof -
  have sel: "select_memories undecodable_runtime (Some [blank_record, hello_record])
               (fresh_state\<lparr>llms := llms (with_client fresh_state)\<rparr>)
             = Some ([blank_record, hello_record], with_client fresh_state)"
    by (simp add: select_memories_def with_client_eq)
  have proc: "process_memories undecodable_runtime example_client [blank_record, hello_record] [] []
                (with_client fresh_state)
              = (Inl (RetryError JSONDecodeError),
         \<lparr>llms = llms (with_client fresh_state), chat_calls = 3, ulids = 0,
          trace = [DeleteMemories [''m0''],
                   ChatCompletion (discrete_request undecodable_runtime hello_record),
                   ChatCompletion (discrete_request undecodable_runtime hello_record),
                   ChatCompletion (discrete_request undecodable_runtime hello_record)]\<rparr>)"
    by (simp add: record_texts retry_discrete_unrolled undecodable_outcome Let_def
        after_chats_3 with_client_def fresh_state_def)
  show ?thesis
    by (simp only: extract_discrete_memories_def example_generation_config
        example_generation_client sel proc sum.case prod.case option.case)
qed

lemma scripted_loop:
  "process_memories scripted_runtime example_client [blank_record, hello_record] [] []
     (with_client fresh_state)
   = (Inr ([semantic_X], [hello_record\<lparr>discrete_memory_extracted := ''t''\<rparr>]),
      \<lparr>llms = llms (with_client fresh_state), chat_calls = 3, ulids = 0,
       trace = [DeleteMemories [''m0''],
                ChatCompletion (discrete_request scripted_runtime hello_record),
                ChatCompletion (discrete_request scripted_runtime hello_record),
                ChatCompletion (discrete_request scripted_runtime hello_record)]\<rparr>)"
  by (simp add: record_texts retry_discrete_unrolled scripted_outcome Let_def
      after_chats_3 with_client_def fresh_state_def)

lemma scripted_run:
  "extract_discrete_memories scripted_runtime (Some [blank_record, hello_record]) True fresh_state
   = Some (Inr (),
      \<lparr>llms = llms (with_client fresh_state), chat_calls = 3, ulids = 1,
       trace = [DeleteMemories [''m0''],
                ChatCompletion (discrete_request scripted_runtime hello_record),
                ChatCompletion (discrete_request scripted_runtime hello_record),
                ChatCompletion (discrete_request scripted_runtime hello_record),
                UpdateMemories [hello_record\<lparr>discrete_memory_extracted := ''t''\<rparr>],
                IndexLongTermMemories
                  [\<lparr>id' = ''01J'', text = ''X'', memory_type = ''semantic'', topics = [],
                    entities = [], discrete_memory_extracted = ''t''\<rparr>] True]\<rparr>)"
proof -
  have sel: "select_memories scripted_runtime (Some [blank_record, hello_record])
               (fresh_state\<lparr>llms := llms (with_client fresh_state)\<rparr>)
             = Some ([blank_record, hello_record], with_client fresh_state)"
    by (simp add: select_memories_def with_client_eq)
  have fl: "flush_memories scripted_runtime True [semantic_X]
              [hello_record\<lparr>discrete_memory_extracted := ''t''\<rparr>]
      \<lparr>llms = llms (with_client fresh_state), chat_calls = 3, ulids = 0,
       trace = [DeleteMemories [''m0''],
                ChatCompletion (discrete_request scripted_runtime hello_record),
                ChatCompletion (discrete_request scripted_runtime hello_record),
                ChatCompletion (discrete_request scripted_runtime hello_record)]\<rparr>
     = (Inr (),
      \<lparr>llms = llms (with_client fresh_state), chat_calls = 3, ulids = 1,
       trace = [DeleteMemories [''m0''],
                ChatCompletion (discrete_request scripted_runtime hello_record),
                ChatCompletion (discrete_request scripted_runtime hello_record),
                ChatCompletion (discrete_request scripted_runtime hello_record),
                UpdateMemories [hello_record\<lparr>discrete_memory_extracted := ''t''\<rparr>],
                IndexLongTermMemories
                  [\<lparr>id' = ''01J'', text = ''X'', memory_type = ''semantic'', topics = [],
                    entities = [], discrete_memory_extracted = ''t''\<rparr>] True]\<rparr>)"
    by (simp add: flush_memories_def new_memory_record_semantic_X Let_def scripted_runtime_def
        example_defs)
  show ?thesis
    by (simp only: extract_discrete_memories_def example_generation_config
        example_generation_client sel scripted_loop fl sum.case prod.case option.case)
qed

lemma paging_facts:
  "length thirty_records = 30"
  "adapter_search paging_runtime = (\<lambda>offset. take 25 (drop offset thirty_records))"
  "get_model_config (generation_model (app_settings paging_runtime))
     = Inr (mk_config OPENAI ''gpt-4o-mini'' 128000 1536)"
  "get_model_client (openai_importable paging_runtime) (anthropic_importable paging_runtime)
     (os_environ paging_runtime) (ByEnum (provider (mk_config OPENAI ''gpt-4o-mini'' 128000 1536)))
     (llms fresh_state) = Inr (example_client, llms (with_client fresh_state))"
  by (simp_all add: thirty_records_def paging_runtime_def example_defs client_defs)

section \<open>Facts about malformed responses and the Anthropic client\<close>

lemma parse_memories_malformed:
  assumes "malformed_response loads r"
  shows "\<exists>e. parse_memories loads r = Inl e"
proof (cases "message_content r")
  case (Inl e)
  then show ?thesis by (simp add: parse_memories_def)
next
  case (Inr content)
  then have rt: "response_text r = content"
    by (auto simp: message_content_def response_text_def split: list.splits choice.splits)
  with assms obtain s where s: "content = Some s"
    by (auto simp: malformed_response_def split: option.splits)
  show ?thesis
  proof (cases "loads s")
    case None
    with Inr s show ?thesis by (simp add: parse_memories_def py_json_loads_def)
  next
    case (Some v)
    with assms rt s have "memories_envelope v = None"
      by (simp add: malformed_response_def)
    with Inr s Some show ?thesis
      by (auto simp: parse_memories_def py_json_loads_def memories_envelope_def dict_getitem_def
          split: json.splits option.splits)
  qed
qed

lemma parse_memories_envelope:
  assumes "choices r = ChoiceObject (Some s) # others" and "loads s = Some v"
      and "memories_envelope v = Some ms"
  shows "parse_memories loads r = Inr ms"
  using assms
  by (auto simp: parse_memories_def message_content_def py_json_loads_def memories_envelope_def
      dict_getitem_def split: json.splits option.splits)

lemma memories_outcome_malformed:
  assumes "chat_answer rt c n (discrete_request rt m) = Inr r"
      and "malformed_response (json_loads rt) r"
  shows "\<exists>e. parse_memories (json_loads rt) r = Inl e \<and> memories_outcome rt c m n = Inl e"
  using parse_memories_malformed [OF assms(2)] assms(1)
  by (auto simp: memories_outcome_def memories_of_answer_def)

lemma anthropic_chat_answer:
  "chat_answer rt (AnthropicClient oid w) n req = Inr r \<Longrightarrow> \<exists>content. choices r = [ChoiceDict content]"
  by (auto simp: chat_answer_def Anthropic_create_chat_completion_def Let_def
      split: option.splits sum.splits)

lemma anthropic_outcome_never_returns:
  "memories_outcome rt (AnthropicClient oid w) m n \<noteq> Inr ms"
proof (cases "chat_answer rt (AnthropicClient oid w) n (discrete_request rt m)")
  case (Inl e)
  then show ?thesis by (simp add: memories_outcome_def memories_of_answer_def)
next
  case (Inr r)
  from anthropic_chat_answer [OF Inr] obtain content where "choices r = [ChoiceDict content]" ..
  with Inr show ?thesis
    by (simp add: memories_outcome_def memories_of_answer_def parse_memories_def
        message_content_def)
qed

lemmas anthropic_defs = anthropic_scripted_runtime_def anthropic_settings_def
  anthropic_environ_def anthropic_client_def with_anthropic_client_def scripted_runtime_def

lemma anthropic_generation_config:
  "get_model_config (generation_model (app_settings anthropic_scripted_runtime))
     = Inr (mk_config ANTHROPIC ''claude-3-sonnet-20240229'' 200000 1536)"
  by (simp add: anthropic_defs example_defs get_model_config_def dict_contains_def
      dict_getitem_def MODEL_CONFIGS_def)

lemma anthropic_generation_client:
  "get_model_client (openai_importable anthropic_scripted_runtime)
     (anthropic_importable anthropic_scripted_runtime) (os_environ anthropic_scripted_runtime)
     (ByEnum (provider (mk_config ANTHROPIC ''claude-3-sonnet-20240229'' 200000 1536)))
     (llms fresh_state) = Inr (anthropic_client, llms (with_anthropic_client fresh_state))"
  by (simp add: anthropic_defs example_defs client_defs AnthropicClientWrapper_init_def
      new_AsyncAnthropic_def)

lemma anthropic_answers:
  "chat_answer anthropic_scripted_runtime anthropic_client n
       (discrete_request anthropic_scripted_runtime hello_record)
     = Inr \<lparr>choices = [ChoiceDict (if n = 0 then ''not json''
                                   else if n = 1 then ''{bad}'' else valid_memories_text)]\<rparr>"
  by (simp add: chat_answer_def Anthropic_create_chat_completion_def discrete_request_def
      anthropic_defs example_defs Let_def)

lemma anthropic_outcome:
  "memories_outcome anthropic_scripted_runtime anthropic_client hello_record n = Inl AttributeError"
  by (simp add: memories_outcome_def memories_of_answer_def anthropic_answers parse_memories_def
      message_content_def)

lemma with_anthropic_client_eq:
  "fresh_state\<lparr>llms := llms (with_anthropic_client fresh_state)\<rparr> = with_anthropic_client fresh_state"
  by (simp add: with_anthropic_client_def)

lemma anthropic_run:
  "extract_discrete_memories anthropic_scripted_runtime (Some [hello_record]) True fresh_state
     = Some (Inl (RetryError AttributeError),
         \<lparr>llms = llms (with_anthropic_client fresh_state), chat_calls = 3, ulids = 0,
          trace = [ChatCompletion (discrete_request anthropic_scripted_runtime hello_record),
                   ChatCompletion (discrete_request anthropic_scripted_runtime hello_record),
                   ChatCompletion (discrete_request anthropic_scripted_runtime hello_record)]\<rparr>)"
proof -
  have sel: "select_memories anthropic_scripted_runtime (Some [hello_record])
               (fresh_state\<lparr>llms := llms (with_anthropic_client fresh_state)\<rparr>)
             = Some ([hello_record], with_anthropic_client fresh_state)"
    by (simp add: select_memories_def with_anthropic_client_eq)
  have proc: "process_memories anthropic_scripted_runtime anthropic_client [hello_record] [] []
                (with_anthropic_client fresh_state)
              = (Inl (RetryError AttributeError),
         \<lparr>llms = llms (with_anthropic_client fresh_state), chat_calls = 3, ulids = 0,
          trace = [ChatCompletion (discrete_request anthropic_scripted_runtime hello_record),
                   ChatCompletion (discrete_request anthropic_scripted_runtime hello_record),
                   ChatCompletion (discrete_request anthropic_scripted_runtime hello_record)]\<rparr>)"
    by (simp add: record_texts retry_discrete_unrolled anthropic_outcome Let_def
        after_chats_3 with_anthropic_client_def fresh_state_def)
  show ?thesis
    by (simp only: extract_discrete_memories_def anthropic_generation_config
        anthropic_generation_client sel proc sum.case prod.case option.case)
qed

lemma misshapen_generation_config:
  "get_model_config (generation_model (app_settings misshapen_runtime))
     = Inr (mk_config OPENAI ''gpt-4o-mini'' 128000 1536)"
  by (simp add: misshapen_runtime_def example_defs get_model_config_def dict_contains_def
      dict_getitem_def MODEL_CONFIGS_def)

lemma misshapen_generation_client:
  "get_model_client (openai_importable misshapen_runtime) (anthropic_importable misshapen_runtime)
     (os_environ misshapen_runtime) (ByEnum (provider (mk_config OPENAI ''gpt-4o-mini'' 128000 1536)))
     (llms fresh_state) = Inr (example_client, llms (with_client fresh_state))"
  by (simp add: misshapen_runtime_def example_defs client_defs)

lemma misshapen_answer:
  "chat_answer misshapen_runtime example_client n (discrete_request misshapen_runtime hello_record)
     = Inr \<lparr>choices = [ChoiceObject (Some ''{\"memories\": \"nope\"}'')]\<rparr>"
  by (simp add: chat_answer_def OpenAI_create_chat_completion_def misshapen_runtime_def
      example_defs)

lemma misshapen_malformed:
  "malformed_response (json_loads misshapen_runtime)
     \<lparr>choices = [ChoiceObject (Some ''{\"memories\": \"nope\"}'')]\<rparr>"
  by (simp add: malformed_response_def response_text_def memories_envelope_def
      misshapen_runtime_def example_defs)

lemma misshapen_parse:
  "parse_memories (json_loads misshapen_runtime)
     \<lparr>choices = [ChoiceObject (Some ''{\"memories\": \"nope\"}'')]\<rparr> = Inl AssertionError"
  by (simp add: parse_memories_def message_content_def py_json_loads_def dict_getitem_def
      misshapen_runtime_def example_defs)

lemma undecodable_answer:
  "chat_answer undecodable_runtime example_client n
       (discrete_request undecodable_runtime hello_record)
     = Inr \<lparr>choices = [ChoiceObject (Some ''not json'')]\<rparr>"
  by (simp add: chat_answer_def OpenAI_create_chat_completion_def example_defs)

lemma undecodable_malformed:
  "malformed_response (json_loads undecodable_runtime) \<lparr>choices = [ChoiceObject (Some ''not json'')]\<rparr>"
  by (simp add: malformed_response_def response_text_def example_defs)

lemma undecodable_parse:
  "parse_memories (json_loads undecodable_runtime) \<lparr>choices = [ChoiceObject (Some ''not json'')]\<rparr>
     = Inl JSONDecodeError"
  by (simp add: parse_memories_def message_content_def py_json_loads_def example_defs)

section \<open>The third attempt succeeds with the OpenAI client and raises with the Anthropic client\<close>

text \<open>
  C4.  The record \<open>hello_record\<close>, which has text, is given alone, and the model
  answers \<open>not json\<close>, then \<open>{bad}\<close>, then the envelope with the one memory of type
  \<open>semantic\<close> and text \<open>X\<close>.  With the OpenAI client the call does what the claim
  says: after three chat calls the copy of the source record with the flag \<open>t\<close> is
  sent to the bulk update, and exactly one new record, with a generated id, type
  \<open>semantic\<close>, text \<open>X\<close> and the flag \<open>t\<close>, is handed to the deduplicating indexing.
  With the Anthropic client the same three answers make the call raise: the
  wrapper returns its choices as dicts, the attempt reads the attribute \<open>message\<close>
  of the first choice, so every attempt raises \<open>AttributeError\<close>, and after three
  chat calls \<open>RetryError\<close> leaves the call, with no bulk update and no indexing.
  With an Anthropic client no attempt of the discrete extraction ever returns,
  whatever the model answers.
\<close>

theorem third_attempt_succeeds_openai_raises_anthropic:
  "extract_discrete_memories scripted_runtime (Some [hello_record]) True fresh_state
     = Some (Inr (),
          \<lparr>llms = llms (with_client fresh_state), chat_calls = 3, ulids = 1,
           trace = replicate 3 (ChatCompletion (discrete_request scripted_runtime hello_record))
             @ [UpdateMemories [hello_record\<lparr>discrete_memory_extracted := ''t''\<rparr>],
                IndexLongTermMemories
                  [\<lparr>id' = ''01J'', text = ''X'', memory_type = ''semantic'',
                    topics = [], entities = [], discrete_memory_extracted = ''t''\<rparr>]
                  True]\<rparr>)
   \<and> chat_answer anthropic_scripted_runtime anthropic_client 0
        (discrete_request anthropic_scripted_runtime hello_record)
       = Inr \<lparr>choices = [ChoiceDict ''not json'']\<rparr>
   \<and> chat_answer anthropic_scripted_runtime anthropic_client 1
        (discrete_request anthropic_scripted_runtime hello_record)
       = Inr \<lparr>choices = [ChoiceDict ''{bad}'']\<rparr>
   \<and> chat_answer anthropic_scripted_runtime anthropic_client 2
        (discrete_request anthropic_scripted_runtime hello_record)
       = Inr \<lparr>choices = [ChoiceDict
           ''{\"memories\":[{\"type\":\"semantic\",\"text\":\"X\",\"topics\":[],\"entities\":[]}]}'']\<rparr>
   \<and> json_loads anthropic_scripted_runtime
        ''{\"memories\":[{\"type\":\"semantic\",\"text\":\"X\",\"topics\":[],\"entities\":[]}]}''
       = Some (JObject [(''memories'', JArray [semantic_X])])
   \<and> extract_discrete_memories anthropic_scripted_runtime (Some [hello_record]) True fresh_state
       = Some (Inl (RetryError AttributeError),
           \<lparr>llms = llms (with_anthropic_client fresh_state), chat_calls = 3, ulids = 0,
            trace = [ChatCompletion (discrete_request anthropic_scripted_runtime hello_record),
                     ChatCompletion (discrete_request anthropic_scripted_runtime hello_record),
                     ChatCompletion (discrete_request anthropic_scripted_runtime hello_record)]\<rparr>)
   \<and> (\<forall>rt oid w m n ms. memories_outcome rt (AnthropicClient oid w) m n \<noteq> Inr ms)"
proof -
  have a0: "chat_answer anthropic_scripted_runtime anthropic_client 0
        (discrete_request anthropic_scripted_runtime hello_record)
       = Inr \<lparr>choices = [ChoiceDict ''not json'']\<rparr>"
    by (simp add: anthropic_answers)
  have a1: "chat_answer anthropic_scripted_runtime anthropic_client 1
        (discrete_request anthropic_scripted_runtime hello_record)
       = Inr \<lparr>choices = [ChoiceDict ''{bad}'']\<rparr>"
    by (simp add: anthropic_answers)
  have a2: "chat_answer anthropic_scripted_runtime anthropic_client 2
        (discrete_request anthropic_scripted_runtime hello_record)
       = Inr \<lparr>choices = [ChoiceDict
           ''{\"memories\":[{\"type\":\"semantic\",\"text\":\"X\",\"topics\":[],\"entities\":[]}]}'']\<rparr>"
    by (simp add: anthropic_answers valid_memories_text_def)
  have l: "json_loads anthropic_scripted_runtime
        ''{\"memories\":[{\"type\":\"semantic\",\"text\":\"X\",\"topics\":[],\"entities\":[]}]}''
       = Some (JObject [(''memories'', JArray [semantic_X])])"
    by (simp add: anthropic_defs valid_memories_text_def)
  have never: "\<forall>rt oid w m n ms. memories_outcome rt (AnthropicClient oid w) m n \<noteq> Inr ms"
    by (simp add: anthropic_outcome_never_returns)
  from scripted_single_run a0 a1 a2 l anthropic_run never show ?thesis
    by (intro conjI)
qed

section \<open>Exhausted retries abort the batch before the flush\<close>

text \<open>
  C3 as stated fails: a record without text that precedes the failing record has
  been deleted through the adapter by the time the retries are exhausted, so a
  storage write of the batch is committed although the call raises.  Here the
  first record has no text and the model's answers to the second are never JSON.
\<close>

theorem exhausted_retries_after_delete_counterexample:
  "chat_answer undecodable_runtime example_client 0
       (discrete_request undecodable_runtime hello_record)
     = Inr \<lparr>choices = [ChoiceObject (Some ''not json'')]\<rparr>
   \<and> chat_answer undecodable_runtime example_client 1
       (discrete_request undecodable_runtime hello_record)
     = Inr \<lparr>choices = [ChoiceObject (Some ''not json'')]\<rparr>
   \<and> chat_answer undecodable_runtime example_client 2
       (discrete_request undecodable_runtime hello_record)
     = Inr \<lparr>choices = [ChoiceObject (Some ''not json'')]\<rparr>
   \<and> malformed_response (json_loads undecodable_runtime)
        \<lparr>choices = [ChoiceObject (Some ''not json'')]\<rparr>
   \<and> memories_outcome undecodable_runtime example_client hello_record 0 = Inl JSONDecodeError
   \<and> memories_outcome undecodable_runtime example_client hello_record 1 = Inl JSONDecodeError
   \<and> memories_outcome undecodable_runtime example_client hello_record 2 = Inl JSONDecodeError
   \<and> extract_discrete_memories undecodable_runtime (Some [blank_record, hello_record]) True
        fresh_state
      = Some (Inl (RetryError JSONDecodeError),
         \<lparr>llms = llms (with_client fresh_state), chat_calls = 3, ulids = 0,
          trace = [DeleteMemories [''m0''],
                   ChatCompletion (discrete_request undecodable_runtime hello_record),
                   ChatCompletion (discrete_request undecodable_runtime hello_record),
                   ChatCompletion (discrete_request undecodable_runtime hello_record)]\<rparr>)
   \<and> is_write (DeleteMemories [''m0''])"
  by (simp add: undecodable_answer undecodable_malformed undecodable_outcome undecodable_run
      is_write_def is_delete_def)

text \<open>
  When all three attempts on a record with text raise, the call raises
  \<open>RetryError\<close> with the third attempt's exception; the run holds no bulk update
  and no indexing call, and its only storage writes are the deletions of the
  records without text that precede the record.
\<close>

lemma exhausted_attempts_abort:
  assumes config: "get_model_config (generation_model (app_settings rt)) = Inr config"
      and client: "get_model_client (openai_importable rt) (anthropic_importable rt)
                     (os_environ rt) (ByEnum (provider config)) (llms st) = Inr (c, l)"
      and selected: "select_memories rt memories (st\<lparr>llms := l\<rparr>) = Some (pre @ m # post, st1)"
      and before: "process_memories rt c pre [] [] st1 = (Inr (new, upd), st2)"
      and nonempty: "text m \<noteq> []"
      and first: "memories_outcome rt c m (chat_calls st2) = Inl e1"
      and second: "memories_outcome rt c m (chat_calls st2 + 1) = Inl e2"
      and third: "memories_outcome rt c m (chat_calls st2 + 2) = Inl e3"
  shows "extract_discrete_memories rt memories deduplicate st
           = Some (Inl (RetryError e3), after_chats (discrete_request rt m) 3 st2)
       \<and> (\<forall>e \<in> set (events_since st (after_chats (discrete_request rt m) 3 st2)).
             \<not> is_update e \<and> \<not> is_index e)
       \<and> [e \<leftarrow> events_since st (after_chats (discrete_request rt m) 3 st2). is_write e]
            = map (\<lambda>r. DeleteMemories [id' r]) [r \<leftarrow> pre. text r = []]"
proof -
  let ?req = "discrete_request rt m"
  let ?final = "after_chats ?req 3 st2"
  have retry: "AsyncRetrying 3 (discrete_attempt rt c m) (new, st2)
                 = (Inl (RetryError e3), (new, ?final))"
    using first second third by (simp add: retry_discrete_unrolled Let_def)
  have rest: "process_memories rt c (m # post) new upd st2 = (Inl (RetryError e3), ?final)"
    using nonempty by (simp add: retry)
  have proc: "process_memories rt c (pre @ m # post) [] [] st1 = (Inl (RetryError e3), ?final)"
    by (simp only: process_memories_append before rest prod.case sum.case)
  have run: "extract_discrete_memories rt memories deduplicate st
           = Some (Inl (RetryError e3), ?final)"
    by (simp only: extract_discrete_memories_def config client selected proc
        sum.case prod.case option.case)
  from select_memories_events [OF selected] obtain evs_s where
    ts: "trace st1 = trace st @ evs_s" and es: "\<forall>e \<in> set evs_s. is_search e"
    by auto
  from process_memories_events [OF before] obtain evs_p where
    tp: "trace st2 = trace st1 @ evs_p" and ep: "\<forall>e \<in> set evs_p. loop_event rt pre e"
    and dp: "[e \<leftarrow> evs_p. \<not> is_chat e] = map (\<lambda>r. DeleteMemories [id' r]) [r \<leftarrow> pre. text r = []]"
    by auto
  have ev: "events_since st ?final = evs_s @ evs_p @ replicate 3 (ChatCompletion ?req)"
    by (rule events_since_append) (simp add: ts tp)
  have w_s: "[e \<leftarrow> evs_s. is_write e] = []"
    using es by (auto simp: filter_empty_conv dest: search_kind)
  have w_p: "[e \<leftarrow> evs_p. is_write e] = [e \<leftarrow> evs_p. \<not> is_chat e]"
    using ep by (intro filter_cong refl) (auto dest: loop_event_kind)
  have w_c: "[e \<leftarrow> replicate 3 (ChatCompletion ?req). is_write e] = []"
    by (simp add: chat_kind)
  have no_upd: "\<forall>e \<in> set (events_since st ?final). \<not> is_update e \<and> \<not> is_index e"
  proof
    fix e assume "e \<in> set (events_since st ?final)"
    then consider "e \<in> set evs_s" | "e \<in> set evs_p" | "e = ChatCompletion ?req"
      unfolding ev by auto
    then show "\<not> is_update e \<and> \<not> is_index e"
    proof cases
      case 1
      with es show ?thesis by (blast dest: search_kind)
    next
      case 2
      with ep show ?thesis by (blast dest: loop_event_kind)
    next
      case 3
      then show ?thesis by (simp add: chat_kind)
    qed
  qed
  have writes: "[e \<leftarrow> events_since st ?final. is_write e]
            = map (\<lambda>r. DeleteMemories [id' r]) [r \<leftarrow> pre. text r = []]"
    unfolding ev by (simp only: filter_append w_s w_p w_c dp) simp
  from run no_upd writes show ?thesis by (intro conjI)
qed

text \<open>
  C3, amended.  Let the client be available, let the batch (given or selected) be
  \<open>pre\<close>, then \<open>m\<close>, then \<open>post\<close>, let the loop get through \<open>pre\<close>, and let the
  model's responses to the three chat calls for the record \<open>m\<close>, which has text,
  be malformed: the text of each cannot be decoded as JSON, or decodes to a value
  that fails the shape validation.  Then the call raises \<open>RetryError\<close> with the
  exception the third response raised, and no flag update or indexing is
  committed: the run holds no bulk update and no indexing call, so the flag of \<open>m\<close>
  and of every other record stays as it was.  The only storage writes of the run
  are the deletions of the records without text that precede \<open>m\<close>, which the loop
  issued on its way.
\<close>

theorem exhausted_retries_commit_no_update:
  assumes config: "get_model_config (generation_model (app_settings rt)) = Inr config"
      and client: "get_model_client (openai_importable rt) (anthropic_importable rt)
                     (os_environ rt) (ByEnum (provider config)) (llms st) = Inr (c, l)"
      and selected: "select_memories rt memories (st\<lparr>llms := l\<rparr>) = Some (pre @ m # post, st1)"
      and before: "process_memories rt c pre [] [] st1 = (Inr (new, upd), st2)"
      and nonempty: "text m \<noteq> []"
      and first: "chat_answer rt c (chat_calls st2) (discrete_request rt m) = Inr r1"
                 "malformed_response (json_loads rt) r1"
      and second: "chat_answer rt c (chat_calls st2 + 1) (discrete_request rt m) = Inr r2"
                  "malformed_response (json_loads rt) r2"
      and third: "chat_answer rt c (chat_calls st2 + 2) (discrete_request rt m) = Inr r3"
                 "malformed_response (json_loads rt) r3"
  shows "(\<exists>e3. parse_memories (json_loads rt) r3 = Inl e3
            \<and> extract_discrete_memories rt memories deduplicate st
                = Some (Inl (RetryError e3), after_chats (discrete_request rt m) 3 st2))
       \<and> (\<forall>e \<in> set (events_since st (after_chats (discrete_request rt m) 3 st2)).
             \<not> is_update e \<and> \<not> is_index e)
       \<and> [e \<leftarrow> events_since st (after_chats (discrete_request rt m) 3 st2). is_write e]
            = map (\<lambda>r. DeleteMemories [id' r]) [r \<leftarrow> pre. text r = []]"
proof -
  from memories_outcome_malformed [OF first] obtain e1 where
    o1: "memories_outcome rt c m (chat_calls st2) = Inl e1" by blast
  from memories_outcome_malformed [OF second] obtain e2 where
    o2: "memories_outcome rt c m (chat_calls st2 + 1) = Inl e2" by blast
  from memories_outcome_malformed [OF third] obtain e3 where
    p3: "parse_memories (json_loads rt) r3 = Inl e3"
    and o3: "memories_outcome rt c m (chat_calls st2 + 2) = Inl e3" by blast
  note a = exhausted_attempts_abort [OF config client selected before nonempty o1 o2 o3,
      of deduplicate]
  have run: "\<exists>e3. parse_memories (json_loads rt) r3 = Inl e3
            \<and> extract_discrete_memories rt memories deduplicate st
                = Some (Inl (RetryError e3), after_chats (discrete_request rt m) 3 st2)"
  proof (intro exI conjI)
    show "parse_memories (json_loads rt) r3 = Inl e3" by (rule p3)
    show "extract_discrete_memories rt memories deduplicate st
                = Some (Inl (RetryError e3), after_chats (discrete_request rt m) 3 st2)"
      by (rule a [THEN conjunct1])
  qed
  from run a [THEN conjunct2, THEN conjunct1] a [THEN conjunct2, THEN conjunct2]
  show ?thesis by (intro conjI)
qed

theorem exhausted_retries_commit_no_update_witness:
  "text hello_record \<noteq> []
   \<and> chat_answer undecodable_runtime example_client 0
        (discrete_request undecodable_runtime hello_record)
       = Inr \<lparr>choices = [ChoiceObject (Some ''not json'')]\<rparr>
   \<and> malformed_response (json_loads undecodable_runtime)
        \<lparr>choices = [ChoiceObject (Some ''not json'')]\<rparr>
   \<and> extract_discrete_memories undecodable_runtime (Some [blank_record, hello_record]) True
        fresh_state
      = Some (Inl (RetryError JSONDecodeError),
          after_chats (discrete_request undecodable_runtime hello_record) 3
            ((with_client fresh_state)\<lparr>trace := [DeleteMemories [''m0'']]\<rparr>))
   \<and> [e \<leftarrow> events_since fresh_state
             (after_chats (discrete_request undecodable_runtime hello_record) 3
               ((with_client fresh_state)\<lparr>trace := [DeleteMemories [''m0'']]\<rparr>)). is_write e]
        = [DeleteMemories [''m0'']]
   \<and> chat_answer misshapen_runtime example_client 0
        (discrete_request misshapen_runtime hello_record)
       = Inr \<lparr>choices = [ChoiceObject (Some ''{\"memories\": \"nope\"}'')]\<rparr>
   \<and> json_loads misshapen_runtime ''{\"memories\": \"nope\"}''
       = Some (JObject [(''memories'', JString ''nope'')])
   \<and> malformed_response (json_loads misshapen_runtime)
        \<lparr>choices = [ChoiceObject (Some ''{\"memories\": \"nope\"}'')]\<rparr>
   \<and> extract_discrete_memories misshapen_runtime (Some [hello_record]) True fresh_state
      = Some (Inl (RetryError AssertionError),
          after_chats (discrete_request misshapen_runtime hello_record) 3
            (with_client fresh_state))
   \<and> [e \<leftarrow> events_since fresh_state
             (after_chats (discrete_request misshapen_runtime hello_record) 3
               (with_client fresh_state)). is_write e] = []"
proof -
  let ?st2 = "(with_client fresh_state)\<lparr>trace := [DeleteMemories [''m0'']]\<rparr>"
  let ?ru = "\<lparr>choices = [ChoiceObject (Some ''not json'')]\<rparr>"
  let ?rm = "\<lparr>choices = [ChoiceObject (Some ''{\"memories\": \"nope\"}'')]\<rparr>"
  have sel: "select_memories undecodable_runtime (Some ([blank_record] @ hello_record # []))
               (fresh_state\<lparr>llms := llms (with_client fresh_state)\<rparr>)
             = Some ([blank_record] @ hello_record # [], with_client fresh_state)"
    by (simp add: select_memories_def with_client_eq)
  note t = exhausted_retries_commit_no_update [OF example_generation_config(2)
      example_generation_client(2) sel undecodable_before record_texts(2)
      undecodable_answer undecodable_malformed undecodable_answer undecodable_malformed
      undecodable_answer undecodable_malformed, of True]
  from t [THEN conjunct1] obtain e3 where
    p: "parse_memories (json_loads undecodable_runtime) ?ru = Inl e3"
    and run: "extract_discrete_memories undecodable_runtime
                (Some ([blank_record] @ hello_record # [])) True fresh_state
              = Some (Inl (RetryError e3),
                  after_chats (discrete_request undecodable_runtime hello_record) 3 ?st2)"
    by blast
  from p have "e3 = JSONDecodeError" by (simp add: undecodable_parse)
  with run
  have r1: "extract_discrete_memories undecodable_runtime (Some [blank_record, hello_record]) True
        fresh_state
      = Some (Inl (RetryError JSONDecodeError),
          after_chats (discrete_request undecodable_runtime hello_record) 3 ?st2)"
    by simp
  have w1: "[e \<leftarrow> events_since fresh_state
             (after_chats (discrete_request undecodable_runtime hello_record) 3 ?st2). is_write e]
        = [DeleteMemories [''m0'']]"
    using t [THEN conjunct2, THEN conjunct2] by (simp add: record_texts)
  have sel': "select_memories misshapen_runtime (Some ([] @ hello_record # []))
               (fresh_state\<lparr>llms := llms (with_client fresh_state)\<rparr>)
             = Some ([] @ hello_record # [], with_client fresh_state)"
    by (simp add: select_memories_def with_client_eq)
  have before': "process_memories misshapen_runtime example_client [] [] []
                   (with_client fresh_state) = (Inr ([], []), with_client fresh_state)"
    by simp
  note t' = exhausted_retries_commit_no_update [OF misshapen_generation_config
      misshapen_generation_client sel' before' record_texts(2)
      misshapen_answer misshapen_malformed misshapen_answer misshapen_malformed
      misshapen_answer misshapen_malformed, of True]
  from t' [THEN conjunct1] obtain e3' where
    p': "parse_memories (json_loads misshapen_runtime) ?rm = Inl e3'"
    and run': "extract_discrete_memories misshapen_runtime (Some ([] @ hello_record # [])) True
                 fresh_state
              = Some (Inl (RetryError e3'),
                  after_chats (discrete_request misshapen_runtime hello_record) 3
                    (with_client fresh_state))"
    by blast
  from p' have "e3' = AssertionError" by (simp add: misshapen_parse)
  with run'
  have r2: "extract_discrete_memories misshapen_runtime (Some [hello_record]) True fresh_state
      = Some (Inl (RetryError AssertionError),
          after_chats (discrete_request misshapen_runtime hello_record) 3
            (with_client fresh_state))"
    by simp
  have w2: "[e \<leftarrow> events_since fresh_state
             (after_chats (discrete_request misshapen_runtime hello_record) 3
               (with_client fresh_state)). is_write e] = []"
    using t' [THEN conjunct2, THEN conjunct2] by simp
  have l: "json_loads misshapen_runtime ''{\"memories\": \"nope\"}''
       = Some (JObject [(''memories'', JString ''nope'')])"
    by (simp add: misshapen_runtime_def example_defs)
  from record_texts(2) undecodable_answer [of 0] undecodable_malformed r1 w1
    misshapen_answer [of 0] l misshapen_malformed r2 w2
  show ?thesis by (intro conjI)
qed

section \<open>Records without text are deleted and skipped\<close>

text \<open>
  C5.  The loop handles a record without text by one call of the adapter's delete
  on the record's id and goes on with the rest: no chat call, and the collected
  memories and the flagged copies are as before.  When the loop gets through a
  batch, the deletions of the run are exactly those of the batch's records without
  text, in order, and the flagged copies are exactly those of the records with
  text.  In every run of \<open>extract_discrete_memories\<close>, each chat call is the
  extraction request of a record with text, and no record without text is in a
  bulk update.
\<close>

theorem empty_text_record_deleted_and_skipped:
  "(text m = [] \<longrightarrow>
      process_memories rt c (m # ms) new upd st
        = process_memories rt c ms new upd (st\<lparr>trace := trace st @ [DeleteMemories [id' m]]\<rparr>))
   \<and> (\<forall>new' upd' st'. process_memories rt c batch new upd st = (Inr (new', upd'), st') \<longrightarrow>
         [e \<leftarrow> events_since st st'. is_delete e]
           = map (\<lambda>m. DeleteMemories [id' m]) [m \<leftarrow> batch. text m = []]
       \<and> upd' = upd @ map (\<lambda>m. m\<lparr>discrete_memory_extracted := ''t''\<rparr>)
                        [m \<leftarrow> batch. text m \<noteq> []])
   \<and> (\<forall>r st'. extract_discrete_memories rt memories deduplicate st = Some (r, st') \<longrightarrow>
         (\<forall>req. ChatCompletion req \<in> set (events_since st st') \<longrightarrow>
                (\<exists>m'. text m' \<noteq> [] \<and> req = discrete_request rt m'))
       \<and> (\<forall>us u. UpdateMemories us \<in> set (events_since st st') \<and> u \<in> set us \<longrightarrow>
                text u \<noteq> []))"
proof (intro conjI allI impI)
  assume "text m = []"
  then show "process_memories rt c (m # ms) new upd st
        = process_memories rt c ms new upd (st\<lparr>trace := trace st @ [DeleteMemories [id' m]]\<rparr>)"
    by simp
next
  fix new' upd' st'
  assume p: "process_memories rt c batch new upd st = (Inr (new', upd'), st')"
  from process_memories_events [OF p] obtain evs where
    t: "trace st' = trace st @ evs" and l: "\<forall>e \<in> set evs. loop_event rt batch e"
    and u: "upd' = upd @ map (\<lambda>m. m\<lparr>discrete_memory_extracted := ''t''\<rparr>)
                        [m \<leftarrow> batch. text m \<noteq> []]"
    and d: "[e \<leftarrow> evs. \<not> is_chat e] = map (\<lambda>m. DeleteMemories [id' m]) [m \<leftarrow> batch. text m = []]"
    by auto
  have "[e \<leftarrow> evs. is_delete e] = [e \<leftarrow> evs. \<not> is_chat e]"
    using l by (intro filter_cong refl) (auto simp: loop_event_def is_delete_def is_chat_def)
  with t d show "[e \<leftarrow> events_since st st'. is_delete e]
           = map (\<lambda>m. DeleteMemories [id' m]) [m \<leftarrow> batch. text m = []]"
    by (simp add: events_since_def)
  from u show "upd' = upd @ map (\<lambda>m. m\<lparr>discrete_memory_extracted := ''t''\<rparr>)
                        [m \<leftarrow> batch. text m \<noteq> []]" .
next
  fix r st' req
  assume run: "extract_discrete_memories rt memories deduplicate st = Some (r, st')"
    and chat: "ChatCompletion req \<in> set (events_since st st')"
  from run_events [OF run] obtain selected evs_s evs_p evs_f us where
    ev: "events_since st st' = evs_s @ evs_p @ evs_f"
    and es: "\<forall>e \<in> set evs_s. is_search e"
    and ep: "\<forall>e \<in> set evs_p. loop_event rt selected e"
    and ef: "\<forall>e \<in> set evs_f. e = UpdateMemories us \<or> is_index e"
    by blast
  from chat ev consider "ChatCompletion req \<in> set evs_s" | "ChatCompletion req \<in> set evs_p"
    | "ChatCompletion req \<in> set evs_f" by auto
  then show "\<exists>m'. text m' \<noteq> [] \<and> req = discrete_request rt m'"
  proof cases
    case 1
    with es show ?thesis by (auto simp: is_search_def)
  next
    case 2
    with ep show ?thesis by (auto simp: loop_event_def)
  next
    case 3
    with ef show ?thesis by (auto simp: is_index_def)
  qed
next
  fix r st' us u
  assume run: "extract_discrete_memories rt memories deduplicate st = Some (r, st')"
    and upd: "UpdateMemories us \<in> set (events_since st st') \<and> u \<in> set us"
  from run_events [OF run] obtain selected evs_s evs_p evs_f us' where
    ev: "events_since st st' = evs_s @ evs_p @ evs_f"
    and es: "\<forall>e \<in> set evs_s. is_search e"
    and ep: "\<forall>e \<in> set evs_p. loop_event rt selected e"
    and ef: "\<forall>e \<in> set evs_f. e = UpdateMemories us' \<or> is_index e"
    and tu: "\<forall>u \<in> set us'. text u \<noteq> []"
    by blast
  from upd ev consider "UpdateMemories us \<in> set evs_s" | "UpdateMemories us \<in> set evs_p"
    | "UpdateMemories us \<in> set evs_f" by auto
  then show "text u \<noteq> []"
  proof cases
    case 1
    with es show ?thesis by (auto simp: is_search_def)
  next
    case 2
    with ep show ?thesis by (auto simp: loop_event_def)
  next
    case 3
    with ef have "us = us'" by (auto simp: is_index_def)
    with tu upd show ?thesis by blast
  qed
qed

theorem empty_text_record_deleted_and_skipped_witness:
  "text blank_record = []
   \<and> process_memories scripted_runtime example_client [blank_record, hello_record] [] []
        (with_client fresh_state)
      = process_memories scripted_runtime example_client [hello_record] [] []
          ((with_client fresh_state)\<lparr>trace := trace (with_client fresh_state)
              @ [DeleteMemories [id' blank_record]]\<rparr>)
   \<and> process_memories scripted_runtime example_client [blank_record, hello_record] [] []
        (with_client fresh_state)
      = (Inr ([semantic_X], [hello_record\<lparr>discrete_memory_extracted := ''t''\<rparr>]),
         \<lparr>llms = llms (with_client fresh_state), chat_calls = 3, ulids = 0,
          trace = [DeleteMemories [''m0''],
                   ChatCompletion (discrete_request scripted_runtime hello_record),
                   ChatCompletion (discrete_request scripted_runtime hello_record),
                   ChatCompletion (discrete_request scripted_runtime hello_record)]\<rparr>)
   \<and> extract_discrete_memories scripted_runtime (Some [blank_record, hello_record]) True
        fresh_state
      = Some (Inr (),
         \<lparr>llms = llms (with_client fresh_state), chat_calls = 3, ulids = 1,
          trace = [DeleteMemories [''m0''],
                   ChatCompletion (discrete_request scripted_runtime hello_record),
                   ChatCompletion (discrete_request scripted_runtime hello_record),
                   ChatCompletion (discrete_request scripted_runtime hello_record),
                   UpdateMemories [hello_record\<lparr>discrete_memory_extracted := ''t''\<rparr>],
                   IndexLongTermMemories
                     [\<lparr>id' = ''01J'', text = ''X'', memory_type = ''semantic'', topics = [],
                       entities = [], discrete_memory_extracted = ''t''\<rparr>] True]\<rparr>)
   \<and> text (hello_record\<lparr>discrete_memory_extracted := ''t''\<rparr>) \<noteq> []"
  using empty_text_record_deleted_and_skipped [of blank_record scripted_runtime example_client
      "[hello_record]" "[]" "[]" "with_client fresh_state" "[blank_record, hello_record]"
      "Some [blank_record, hello_record]" True]
    empty_text_record_deleted_and_skipped [of blank_record scripted_runtime example_client
      "[hello_record]" "[]" "[]" fresh_state "[blank_record, hello_record]"
      "Some [blank_record, hello_record]" True]
    scripted_loop scripted_run
  by (simp add: record_texts)

section \<open>The selection pages by 25\<close>

text \<open>
  C10.  Without records (\<open>None\<close> or the empty list) \<open>extract_discrete_memories\<close>
  selects by searching at the offsets 0, 25, 50, ..., each search with the empty
  query, the type filter \<open>message\<close>, the flag filter \<open>f\<close> and the limit 25.  It
  accumulates the pages and stops at the first page shorter than 25: when the
  pages at the first \<open>k\<close> offsets are full and the next is short, the selection is
  those \<open>k + 1\<close> pages and exactly \<open>k + 1\<close> searches are made.  Over thirty
  eligible records, behind an adapter that honours limit and offset, the pages
  have 25 and 5 records, the selection is the thirty records, and a run of
  \<open>extract_discrete_memories\<close> makes exactly the two searches, at 0 and at 25.
\<close>

theorem selection_pages_of_25:
  "select_memories rt None st = scan_memories rt [] 0 st
   \<and> select_memories rt (Some []) st = scan_memories rt [] 0 st
   \<and> (\<forall>k. (\<forall>i<k. \<not> length (adapter_search rt (25 * i)) < 25)
          \<and> length (adapter_search rt (25 * k)) < 25 \<longrightarrow>
        scan_memories rt [] 0 st
          = Some (concat (map (\<lambda>i. adapter_search rt (25 * i)) [0..<Suc k]),
                  st\<lparr>trace := trace st @ map (\<lambda>i. search_at (25 * i)) [0..<Suc k]\<rparr>))
   \<and> (\<forall>records. length records = 30
          \<and> adapter_search rt = (\<lambda>offset. take 25 (drop offset records)) \<longrightarrow>
        length (adapter_search rt 0) = 25 \<and> length (adapter_search rt 25) = 5
        \<and> scan_memories rt [] 0 st
            = Some (records, st\<lparr>trace := trace st @ [search_at 0, search_at 25]\<rparr>)
        \<and> (\<forall>config c l.
              get_model_config (generation_model (app_settings rt)) = Inr config
              \<and> get_model_client (openai_importable rt) (anthropic_importable rt)
                   (os_environ rt) (ByEnum (provider config)) (llms st) = Inr (c, l) \<longrightarrow>
              (\<exists>r st'. extract_discrete_memories rt None deduplicate st = Some (r, st')
                 \<and> [e \<leftarrow> events_since st st'. is_search e] = [search_at 0, search_at 25])))"
proof (intro conjI allI impI)
  show "select_memories rt None st = scan_memories rt [] 0 st"
    by (simp add: select_memories_def)
  show "select_memories rt (Some []) st = scan_memories rt [] 0 st"
    by (simp add: select_memories_def)
next
  fix k
  assume a: "(\<forall>i<k. \<not> length (adapter_search rt (25 * i)) < 25)
          \<and> length (adapter_search rt (25 * k)) < 25"
  then have full: "\<forall>i<k. \<not> length (adapter_search rt (0 + 25 * i)) < 25"
    and short: "length (adapter_search rt (0 + 25 * k)) < 25" by simp_all
  from scan_memories_pages [OF full short, of "[]" st]
  show "scan_memories rt [] 0 st
          = Some (concat (map (\<lambda>i. adapter_search rt (25 * i)) [0..<Suc k]),
                  st\<lparr>trace := trace st @ map (\<lambda>i. search_at (25 * i)) [0..<Suc k]\<rparr>)"
    by (simp only: add_0 append_Nil)
next
  fix records
  assume a: "length records = 30
          \<and> adapter_search rt = (\<lambda>offset. take 25 (drop offset records))"
  then have len: "length records = 30"
    and adapter: "adapter_search rt = (\<lambda>offset. take 25 (drop offset records))" by simp_all
  show "length (adapter_search rt 0) = 25" by (rule scan_30(2) [OF len adapter])
  show "length (adapter_search rt 25) = 5" by (rule scan_30(3) [OF len adapter])
  show "scan_memories rt [] 0 st
            = Some (records, st\<lparr>trace := trace st @ [search_at 0, search_at 25]\<rparr>)"
    by (rule scan_30(1) [OF len adapter])
  fix config c l
  assume "get_model_config (generation_model (app_settings rt)) = Inr config
              \<and> get_model_client (openai_importable rt) (anthropic_importable rt)
                   (os_environ rt) (ByEnum (provider config)) (llms st) = Inr (c, l)"
  then have config: "get_model_config (generation_model (app_settings rt)) = Inr config"
    and client: "get_model_client (openai_importable rt) (anthropic_importable rt)
                   (os_environ rt) (ByEnum (provider config)) (llms st) = Inr (c, l)"
    by simp_all
  show "\<exists>r st'. extract_discrete_memories rt None deduplicate st = Some (r, st')
                 \<and> [e \<leftarrow> events_since st st'. is_search e] = [search_at 0, search_at 25]"
    by (rule run_searches_30 [OF len adapter config client]) simp
qed

theorem selection_pages_of_25_witness:
  "length thirty_records = 30
   \<and> adapter_search paging_runtime = (\<lambda>offset. take 25 (drop offset thirty_records))
   \<and> length (adapter_search paging_runtime 0) = 25
   \<and> length (adapter_search paging_runtime 25) = 5
   \<and> scan_memories paging_runtime [] 0 fresh_state
       = Some (thirty_records, fresh_state\<lparr>trace := [search_at 0, search_at 25]\<rparr>)
   \<and> (\<exists>r st'. extract_discrete_memories paging_runtime None True fresh_state = Some (r, st')
         \<and> [e \<leftarrow> events_since fresh_state st'. is_search e] = [search_at 0, search_at 25])"
proof -
  have t: "trace fresh_state = []" by (simp add: fresh_state_def)
  show ?thesis
    using selection_pages_of_25 [of paging_runtime fresh_state True] paging_facts t
    by (simp del: upt_Suc)
qed

end
